theory Spec2Isabelle
  imports Complex_Main "HOL-Library.Sublist"
begin

section \<open>The RAG query pipeline of rag-api\<close>

text \<open>
  A shallow embedding of the Go packages \<^verbatim>\<open>services\<close> (rag.go, vllm.go, the TEI and the
  Weaviate service), \<^verbatim>\<open>handlers\<close> (the query handler) and \<^verbatim>\<open>models\<close>.

  Conventions of the embedding.
  \<^item> A Go result \<^verbatim>\<open>(T, error)\<close> is a pair of the value and an \<open>error option\<close>, \<open>None\<close> being
    \<^verbatim>\<open>nil\<close>: the value returned next to an error is part of the model. A \<^verbatim>\<open>nil\<close> slice is \<open>[]\<close>.
  \<^item> The three backing services and the library calls that can fail are the fields of one
    record, the \<open>world\<close>: deterministic stubs that map a request to its outcome.
  \<^item> Every function returns, next to its result, the list of calls it made (to the
    orchestrator, to a backing service, to the context builder), in order.
  \<^item> \<^verbatim>\<open>float64\<close> and \<^verbatim>\<open>float32\<close> are the type parameters \<open>'a\<close> and \<open>'b\<close>; the narrowing
    conversion is a field of the world.
  \<^item> \<^verbatim>\<open>fmt.Sprintf\<close> is used by the source with the verbs \<^verbatim>\<open>%s\<close> (a string operand, copied as
    it is) and \<^verbatim>\<open>%d\<close> (an integer operand, in decimal) only; each call is written out as the
    concatenation it computes.
\<close>

subsection \<open>Errors\<close>

text \<open>
  \<^verbatim>\<open>errors.New(msg)\<close> and \<^verbatim>\<open>fmt.Errorf\<close> without \<^verbatim>\<open>%w\<close> give \<open>ErrNew\<close>;
  \<^verbatim>\<open>fmt.Errorf("prefix: %w", err)\<close> gives \<open>ErrWrap ''prefix'' err\<close>. Errors of the libraries are
  values of the same type, supplied by the world.
\<close>

datatype error = ErrNew string | ErrWrap string error

fun Error :: "error \<Rightarrow> string" where
  "Error (ErrNew msg) = msg"
| "Error (ErrWrap msg err) = msg @ '': '' @ Error err"

subsection \<open>Decimal rendering of integers (the verb \<^verbatim>\<open>%d\<close>)\<close>

fun digits :: "nat \<Rightarrow> string" where
  "digits n =
     (if n < 10 then [''0123456789'' ! n]
      else digits (n div 10) @ [''0123456789'' ! (n mod 10)])"

declare digits.simps [simp del]

definition Itoa :: "int \<Rightarrow> string" where
  "Itoa i = (if i < 0 then ''-'' @ digits (nat (- i)) else digits (nat i))"

subsection \<open>models\<close>

record QueryRequest =
  req_Query :: string

record QueryResponse =
  Response :: string

record TEIRequest =
  Inputs :: "string list"
  Truncate :: bool
  Normalize :: bool

type_synonym 'a TEIResponse = "'a list list"

subsection \<open>The library and service boundary\<close>

record http_Request =
  Method :: string
  URL :: string
  ContentType :: string
  Body :: string

text \<open>
  A response of the embedding service: its status code and what
  \<^verbatim>\<open>json.NewDecoder(resp.Body).Decode(&response)\<close> gives on its body.
\<close>

record 'a http_Response =
  StatusCode :: int
  Decode :: "error + 'a TEIResponse"

text \<open>
  A decoded JSON value (\<^verbatim>\<open>interface{}\<close> as \<^verbatim>\<open>encoding/json\<close> produces it). A Go map is the
  association list of its entries, read with \<open>map_of\<close>.
\<close>

datatype 'a json =
    JNull
  | JBool bool
  | JNumber 'a
  | JString string
  | JArray "'a json list"
  | JObject "(string \<times> 'a json) list"

record 'b graphql_Get =
  ClassName :: string
  Fields :: "string list"
  NearVector :: "'b list"
  Limit :: int

record ChatCompletionMessage =
  Role :: string
  Content :: string

record ChatCompletionRequest =
  Model :: string
  Messages :: "ChatCompletionMessage list"
  MaxTokens :: int
  Stop :: "string list"

record ChatCompletionChoice =
  Message :: ChatCompletionMessage

record ChatCompletionResponse =
  Choices :: "ChatCompletionChoice list"

record ('a, 'b) world =
  json_Marshal :: "TEIRequest \<Rightarrow> error + string"
  http_NewRequest :: "string \<Rightarrow> string \<Rightarrow> string \<Rightarrow> error + http_Request"
  httpClient_Do :: "http_Request \<Rightarrow> error + 'a http_Response"
  float32 :: "'a \<Rightarrow> 'b"
  graphql_Do :: "'b graphql_Get \<Rightarrow> error + (string \<times> 'a json) list"
  CreateChatCompletion :: "ChatCompletionRequest \<Rightarrow> error + ChatCompletionResponse"

datatype 'b call =
    Call_Query string
  | Call_TEI http_Request
  | Call_Weaviate "'b graphql_Get"
  | Call_buildContext "string list"
  | Call_vLLM ChatCompletionRequest

subsection \<open>services: the TEI embedding service\<close>

record TEIService =
  baseURL :: string

text \<open>
  The test \<^verbatim>\<open>len(response) == 0 || len(response[0]) == 0\<close> is the case distinction on the
  decoded batch: Go evaluates \<^verbatim>\<open>response[0]\<close> for a batch that is not empty only.
\<close>

definition GetEmbedding ::
  "('a, 'b) world \<Rightarrow> TEIService \<Rightarrow> string \<Rightarrow> ('a list \<times> error option) \<times> 'b call list" where
  "GetEmbedding w s text =
     (let payload = \<lparr>Inputs = [text], Truncate = True, Normalize = True\<rparr> in
      case json_Marshal w payload of
        Inl err \<Rightarrow> (([], Some (ErrWrap ''failed to marshal TEI request'' err)), [])
      | Inr payloadBytes \<Rightarrow>
          (case http_NewRequest w ''POST'' (baseURL s @ ''/embed'') payloadBytes of
             Inl err \<Rightarrow> (([], Some (ErrWrap ''failed to create TEI request'' err)), [])
           | Inr req0 \<Rightarrow>
               (let req = req0\<lparr>ContentType := ''application/json''\<rparr> in
                case httpClient_Do w req of
                  Inl err \<Rightarrow> (([], Some (ErrWrap ''TEI request failed'' err)), [Call_TEI req])
                | Inr resp \<Rightarrow>
                    if StatusCode resp \<noteq> 200
                    then (([], Some (ErrNew (''TEI server returned status '' @
                                              Itoa (StatusCode resp)))), [Call_TEI req])
                    else
                      (case Decode resp of
                         Inl err \<Rightarrow>
                           (([], Some (ErrWrap ''failed to decode TEI response'' err)),
                            [Call_TEI req])
                       | Inr response \<Rightarrow>
                           (case response of
                              [] \<Rightarrow>
                                (([], Some (ErrNew ''empty embedding response from TEI'')),
                                 [Call_TEI req])
                            | first # _ \<Rightarrow>
                                if length first = 0
                                then (([], Some (ErrNew ''empty embedding response from TEI'')),
                                      [Call_TEI req])
                                else ((first, None), [Call_TEI req]))))))"

subsection \<open>services: the Weaviate search service\<close>

record WeaviateService =
  collectionName :: string
  searchLimit :: int

text \<open>The type assertions of \<^verbatim>\<open>extractTextChunks\<close>, on the value a map lookup gives.\<close>

fun as_map :: "'a json option \<Rightarrow> (string \<times> 'a json) list option" where
  "as_map (Some (JObject m)) = Some m"
| "as_map _ = None"

fun as_slice :: "'a json option \<Rightarrow> 'a json list option" where
  "as_slice (Some (JArray xs)) = Some xs"
| "as_slice _ = None"

fun as_string :: "'a json option \<Rightarrow> string option" where
  "as_string (Some (JString s)) = Some s"
| "as_string _ = None"

text \<open>The loop over the items of the collection, \<open>chunks\<close> being the slice built so far.\<close>

fun extract_loop :: "string list \<Rightarrow> 'a json list \<Rightarrow> string list" where
  "extract_loop chunks [] = chunks"
| "extract_loop chunks (item # rest) =
     (case as_map (Some item) of
        None \<Rightarrow> extract_loop chunks rest
      | Some itemMap \<Rightarrow>
          (case as_string (map_of itemMap ''text'') of
             None \<Rightarrow> extract_loop chunks rest
           | Some text \<Rightarrow>
               if text \<noteq> '''' then extract_loop (chunks @ [text]) rest
               else extract_loop chunks rest))"

definition extractTextChunks ::
  "(string \<times> 'a json) list \<Rightarrow> string \<Rightarrow> string list \<times> error option" where
  "extractTextChunks data collection =
     (case as_map (map_of data ''Get'') of
        None \<Rightarrow> ([], Some (ErrNew ''invalid GraphQL response: missing Get field''))
      | Some get \<Rightarrow>
          (case as_slice (map_of get collection) of
             None \<Rightarrow>
               ([], Some (ErrNew (''invalid GraphQL response: missing collection '' @ collection)))
           | Some class \<Rightarrow> (extract_loop [] class, None)))"

definition SearchSimilar ::
  "('a, 'b) world \<Rightarrow> WeaviateService \<Rightarrow> 'a list \<Rightarrow> (string list \<times> error option) \<times> 'b call list"
  where
  "SearchSimilar w s embedding =
     (let vector32 = map (float32 w) embedding;
          q = \<lparr>ClassName = collectionName s, Fields = [''text''], NearVector = vector32,
               Limit = searchLimit s\<rparr>
      in case graphql_Do w q of
           Inl err \<Rightarrow> (([], Some (ErrWrap ''Weaviate query failed'' err)), [Call_Weaviate q])
         | Inr data \<Rightarrow> (extractTextChunks data (collectionName s), [Call_Weaviate q]))"

subsection \<open>services: the vLLM generation service\<close>

record VLLMService =
  modelName :: string
  maxTokens :: int

definition GenerateResponse ::
  "('a, 'b) world \<Rightarrow> VLLMService \<Rightarrow> string \<Rightarrow> (string \<times> error option) \<times> 'b call list" where
  "GenerateResponse w s prompt =
     (let req = \<lparr>Model = modelName s,
                 Messages = [\<lparr>Role = ''user'', Content = prompt\<rparr>],
                 MaxTokens = maxTokens s,
                 Stop = [''<|eot_id|>'']\<rparr>
      in case CreateChatCompletion w req of
           Inl err \<Rightarrow> (('''', Some (ErrWrap ''vLLM completion failed'' err)), [Call_vLLM req])
         | Inr resp \<Rightarrow>
             (case Choices resp of
                [] \<Rightarrow> (('''', Some (ErrNew ''no completion choices returned from vLLM'')),
                       [Call_vLLM req])
              | first # _ \<Rightarrow> ((Content (Message first), None), [Call_vLLM req])))"

subsection \<open>services: the orchestrator\<close>

text \<open>
  The prompt template, cut at its two \<^verbatim>\<open>%s\<close> verbs: the context goes between the head and
  the middle part, the query between the middle part and the tail.
\<close>

definition promptTemplate_head :: string where
  "promptTemplate_head =
     ''<|begin_of_text|><|start_header_id|>system<|end_header_id|>\<newline>'' @
     ''Use the following pieces of context to answer the question at the end.\<newline>'' @
     ''If you don't know the answer, just say that you don't know, don't try to make up an answer.\<newline>'' @
     ''Context:\<newline>''"

definition promptTemplate_mid :: string where
  "promptTemplate_mid =
     ''\<newline><|eot_id|><|start_header_id|>user<|end_header_id|>\<newline>'' @
     ''Question:\<newline>''"

definition promptTemplate_tail :: string where
  "promptTemplate_tail =
     ''\<newline><|eot_id|><|start_header_id|>assistant<|end_header_id|>\<newline>''"

definition Sprintf_promptTemplate :: "string \<Rightarrow> string \<Rightarrow> string" where
  "Sprintf_promptTemplate contextStr query =
     promptTemplate_head @ contextStr @ promptTemplate_mid @ query @ promptTemplate_tail"

text \<open>\<^verbatim>\<open>fmt.Sprintf("--- Context Chunk %d ---\n%s\n\n", n, chunk)\<close>\<close>

definition Sprintf_chunk :: "int \<Rightarrow> string \<Rightarrow> string" where
  "Sprintf_chunk n chunk =
     ''--- Context Chunk '' @ Itoa n @ '' ---\<newline>'' @ chunk @ ''\<newline>\<newline>''"

text \<open>The loop of \<^verbatim>\<open>buildContext\<close>: the builder's content so far, the index, the chunks left.\<close>

fun buildContext_loop :: "string \<Rightarrow> int \<Rightarrow> string list \<Rightarrow> string" where
  "buildContext_loop builder i [] = builder"
| "buildContext_loop builder i (chunk # rest) =
     buildContext_loop (builder @ Sprintf_chunk (i + 1) chunk) (i + 1) rest"

definition buildContext :: "string list \<Rightarrow> string" where
  "buildContext chunks =
     (if length chunks = 0 then ''No relevant context found.''
      else buildContext_loop [] 0 chunks)"

record RAGService =
  tei :: TEIService
  weaviate :: WeaviateService
  vllm :: VLLMService

definition Query ::
  "('a, 'b) world \<Rightarrow> RAGService \<Rightarrow> string \<Rightarrow> (string \<times> error option) \<times> 'b call list" where
  "Query w s query =
     (case GetEmbedding w (tei s) query of
        ((embedding, Some err), t1) \<Rightarrow>
          (('''', Some (ErrWrap ''failed to get embedding'' err)), Call_Query query # t1)
      | ((embedding, None), t1) \<Rightarrow>
          (case SearchSimilar w (weaviate s) embedding of
             ((contextChunks, Some err), t2) \<Rightarrow>
               (('''', Some (ErrWrap ''failed to search Weaviate'' err)),
                Call_Query query # t1 @ t2)
           | ((contextChunks, None), t2) \<Rightarrow>
               (let contextStr = buildContext contextChunks;
                    finalPrompt = Sprintf_promptTemplate contextStr query
                in case GenerateResponse w (vllm s) finalPrompt of
                     ((answer, Some err), t3) \<Rightarrow>
                       (('''', Some (ErrWrap ''failed to generate answer'' err)),
                        Call_Query query # t1 @ t2 @ [Call_buildContext contextChunks] @ t3)
                   | ((answer, None), t3) \<Rightarrow>
                       ((answer, None),
                        Call_Query query # t1 @ t2 @ [Call_buildContext contextChunks] @ t3))))"

subsection \<open>handlers: the query handler\<close>

record QueryHandler =
  ragService :: RAGService

text \<open>
  What \<^verbatim>\<open>Handle\<close> returns: a \<^verbatim>\<open>fiber.Error\<close> with its status code and message, the pipeline's
  error as it is, or the JSON response.
\<close>

datatype handler_result =
    Fiber_Error int string
  | Pipeline_Error error
  | JSON QueryResponse

text \<open>
  The third argument is the outcome of \<^verbatim>\<open>c.BodyParser(&req)\<close>: an error, or the request
  the body was parsed into. \<^verbatim>\<open>c.JSON\<close> on a response that holds one string is taken to succeed.
\<close>

definition Handle ::
  "('a, 'b) world \<Rightarrow> QueryHandler \<Rightarrow> error + QueryRequest \<Rightarrow> handler_result \<times> 'b call list"
  where
  "Handle w h body =
     (case body of
        Inl err \<Rightarrow> (Fiber_Error 400 ''Invalid request body'', [])
      | Inr req \<Rightarrow>
          if req_Query req = '''' then (Fiber_Error 400 ''Query cannot be empty'', [])
          else
            (case Query w (ragService h) (req_Query req) of
               ((answer, Some err), t) \<Rightarrow> (Pipeline_Error err, t)
             | ((answer, None), t) \<Rightarrow> (JSON \<lparr>Response = answer\<rparr>, t)))"

subsection \<open>Notions of the specification\<close>

text \<open>
  Follows the specification's words, "the text field of a result item": the non-empty
  string under the key \<^verbatim>\<open>text\<close> of an item that is an object, if there is one.
\<close>

fun nonempty_text_field :: "'a json \<Rightarrow> string option" where
  "nonempty_text_field (JObject m) =
     (case map_of m ''text'' of
        Some (JString t) \<Rightarrow> if t = '''' then None else Some t
      | _ \<Rightarrow> None)"
| "nonempty_text_field _ = None"

text \<open>
  Follows the specification's words, "after trimming": \<^verbatim>\<open>strings.TrimSpace\<close> on the ASCII
  white space characters (tab, line feed, vertical tab, form feed, carriage return, space).
\<close>

definition is_space :: "char \<Rightarrow> bool" where
  "is_space c = (c \<in> set [CHR 0x09, CHR 0x0A, CHR 0x0B, CHR 0x0C, CHR 0x0D, CHR '' ''])"

definition TrimSpace :: "string \<Rightarrow> string" where
  "TrimSpace s = rev (dropWhile is_space (rev (dropWhile is_space s)))"

text \<open>
  The number of positions of a string at which a given text begins; the text is contained
  in the string (\<^verbatim>\<open>strings.Contains\<close>) when it is a \<open>sublist\<close> of it.
\<close>

fun occurrences :: "string \<Rightarrow> string \<Rightarrow> nat" where
  "occurrences m [] = (if m = [] then 1 else 0)"
| "occurrences m (c # cs) = (if prefix m (c # cs) then 1 else 0) + occurrences m cs"

definition chunk_marker :: string where
  "chunk_marker = ''--- Context Chunk''"

text \<open>The calls of the two later stages, the prompt builder and the generator.\<close>

fun later_stage :: "'b call \<Rightarrow> bool" where
  "later_stage (Call_buildContext _) = True"
| "later_stage (Call_vLLM _) = True"
| "later_stage _ = False"

text \<open>
  The position of a call in the pipeline: the orchestrator itself, then the embedding,
  the search, the prompt building and the generation stage.
\<close>

fun stage_of :: "'b call \<Rightarrow> nat" where
  "stage_of (Call_Query _) = 0"
| "stage_of (Call_TEI _) = 1"
| "stage_of (Call_Weaviate _) = 2"
| "stage_of (Call_buildContext _) = 3"
| "stage_of (Call_vLLM _) = 4"

text \<open>
  Follows the specification's taxonomy of the search stage's failures, on the errors the
  code builds: SearchUnavailable is the error \<^verbatim>\<open>SearchSimilar\<close> wraps around a failure of the
  call to the search service, MalformedSearchResponse is an error of
  \<^verbatim>\<open>extractTextChunks\<close> on the shape of the response.
\<close>

fun is_SearchUnavailable :: "error \<Rightarrow> bool" where
  "is_SearchUnavailable (ErrWrap msg cause) = (msg = ''Weaviate query failed'')"
| "is_SearchUnavailable (ErrNew msg) = False"

fun is_MalformedSearchResponse :: "error \<Rightarrow> bool" where
  "is_MalformedSearchResponse (ErrNew msg) = prefix ''invalid GraphQL response: missing '' msg"
| "is_MalformedSearchResponse (ErrWrap msg cause) = False"

subsection \<open>Stub services for the concrete runs\<close>

text \<open>
  The end-to-end scenario: the embedding service answers with one vector of three
  numbers, the search service with two passages, the generation service with one choice.
\<close>

definition scenario_data :: "(string \<times> real json) list" where
  "scenario_data =
     [(''Get'', JObject [(''LlamaIndex'',
        JArray [JObject [(''text'', JString ''Movie A is sci-fi.'')],
                JObject [(''text'', JString ''Movie B is sci-fi.'')]])])]"

definition scenario :: "(real, real) world" where
  "scenario =
     \<lparr>json_Marshal = (\<lambda>p. Inr (concat (Inputs p))),
      http_NewRequest = (\<lambda>m u b. Inr \<lparr>Method = m, URL = u, ContentType = '''', Body = b\<rparr>),
      httpClient_Do = (\<lambda>r. Inr \<lparr>StatusCode = 200, Decode = Inr [[0.1, 0.2, 0.3]]\<rparr>),
      float32 = (\<lambda>x. x),
      graphql_Do = (\<lambda>q. Inr scenario_data),
      CreateChatCompletion = (\<lambda>r. Inr \<lparr>Choices =
        [\<lparr>Message = \<lparr>Role = ''assistant'',
                       Content = ''Both movies are science fiction.''\<rparr>\<rparr>]\<rparr>)\<rparr>"

definition scenario_service :: RAGService where
  "scenario_service =
     \<lparr>tei = \<lparr>baseURL = ''http://localhost:8082''\<rparr>,
      weaviate = \<lparr>collectionName = ''LlamaIndex'', searchLimit = 3\<rparr>,
      vllm = \<lparr>modelName = ''microsoft/Phi-3-mini-128k-instruct'', maxTokens = 4096\<rparr>\<rparr>"

definition scenario_query :: string where
  "scenario_query = ''Tell me about science fiction movies''"

definition timeout_error :: error where
  "timeout_error = ErrNew ''context deadline exceeded''"

section \<open>The generator\<close>

text \<open>
  C8. Whatever the generation service answers to the request that carries the prompt as
  its single user message: with no choice in the response the generator fails with the
  error "no completion choices returned from vLLM" (EmptyGeneration) and the empty string;
  otherwise it succeeds with the content of the first choice.
\<close>

theorem GenerateResponse_first_choice_or_empty:
  assumes "CreateChatCompletion w
             \<lparr>Model = modelName s, Messages = [\<lparr>Role = ''user'', Content = prompt\<rparr>],
              MaxTokens = maxTokens s, Stop = [''<|eot_id|>'']\<rparr> = Inr resp"
  shows "(Choices resp = [] \<longrightarrow>
            fst (GenerateResponse w s prompt) =
              ('''', Some (ErrNew ''no completion choices returned from vLLM''))) \<and>
         (\<forall>c cs. Choices resp = c # cs \<longrightarrow>
            fst (GenerateResponse w s prompt) = (Content (Message c), None))"
  using assms by (simp add: GenerateResponse_def)

theorem GenerateResponse_first_choice_or_empty_witness:
  "fst (GenerateResponse (scenario\<lparr>CreateChatCompletion := (\<lambda>r. Inr \<lparr>Choices = []\<rparr>)\<rparr>)
          (vllm scenario_service) ''p'') =
     ('''', Some (ErrNew ''no completion choices returned from vLLM'')) \<and>
   fst (GenerateResponse scenario (vllm scenario_service) ''p'') =
     (''Both movies are science fiction.'', None)"
proof -
  let ?w0 = "scenario\<lparr>CreateChatCompletion := (\<lambda>r. Inr \<lparr>Choices = []\<rparr>)\<rparr>"
  let ?rq = "\<lparr>Model = modelName (vllm scenario_service),
              Messages = [\<lparr>Role = ''user'', Content = ''p''\<rparr>],
              MaxTokens = maxTokens (vllm scenario_service), Stop = [''<|eot_id|>'']\<rparr>"
  have h0: "CreateChatCompletion ?w0 ?rq = Inr \<lparr>Choices = []\<rparr>"
    by simp
  have h1: "CreateChatCompletion scenario ?rq =
              Inr \<lparr>Choices = [\<lparr>Message = \<lparr>Role = ''assistant'',
                Content = ''Both movies are science fiction.''\<rparr>\<rparr>]\<rparr>"
    by (simp add: scenario_def)
  from GenerateResponse_first_choice_or_empty [OF h0]
       GenerateResponse_first_choice_or_empty [OF h1]
  show ?thesis by simp
qed

section \<open>The retriever\<close>

lemma extract_loop_map_filter:
  "extract_loop chunks items = chunks @ List.map_filter nonempty_text_field items"
proof (induction items arbitrary: chunks)
  case Nil
  show ?case by simp
next
  case (Cons item rest)
  show ?case
  proof (cases item)
    case (JObject m)
    show ?thesis
    proof (cases "map_of m ''text''")
      case None
      with JObject Cons show ?thesis by simp
    next
      case (Some v)
      with JObject Cons show ?thesis
        by (cases v) simp_all
    qed
  qed (simp_all add: Cons)
qed

text \<open>
  C3. On a response whose \<^verbatim>\<open>Get\<close> object and collection list are present, the retriever
  succeeds with exactly the non-empty text fields of the items, in the order of the
  response: an item that is no object, or has no text, a text that is no string or an
  empty text, is skipped. With no item the result is the empty sequence and no error. The
  search operation returns that result whenever the search service answers with such a
  response.
\<close>

theorem extractTextChunks_valid_response:
  assumes "map_of data ''Get'' = Some (JObject get)"
      and "map_of get collection = Some (JArray items)"
  shows "extractTextChunks data collection =
           (List.map_filter nonempty_text_field items, None) \<and>
         (items = [] \<longrightarrow> extractTextChunks data collection = ([], None)) \<and>
         (\<forall>w s embedding.
            collectionName s = collection \<and>
            graphql_Do w \<lparr>ClassName = collectionName s, Fields = [''text''],
                          NearVector = map (float32 w) embedding,
                          Limit = searchLimit s\<rparr> = Inr data \<longrightarrow>
            fst (SearchSimilar w s embedding) =
              (List.map_filter nonempty_text_field items, None))"
  using assms
  by (auto simp add: extractTextChunks_def extract_loop_map_filter SearchSimilar_def)

theorem extractTextChunks_valid_response_witness:
  "extractTextChunks scenario_data ''LlamaIndex'' =
     ([''Movie A is sci-fi.'', ''Movie B is sci-fi.''], None) \<and>
   extractTextChunks
     [(''Get'', JObject [(''LlamaIndex'',
        JArray [JObject [(''text'', JString ''first'')],
                JObject [(''title'', JString ''no text'')],
                JObject [(''text'', JString '''')],
                JObject [(''text'', JNumber (1::real))],
                JString ''no object'',
                JObject [(''text'', JString ''second'')]])])] ''LlamaIndex'' =
     ([''first'', ''second''], None) \<and>
   extractTextChunks [(''Get'', JObject [(''LlamaIndex'', JArray ([] :: real json list))])]
     ''LlamaIndex'' = ([], None) \<and>
   fst (SearchSimilar scenario (weaviate scenario_service) [0.1, 0.2, 0.3]) =
     ([''Movie A is sci-fi.'', ''Movie B is sci-fi.''], None)"
proof -
  let ?items = "[JObject [(''text'', JString ''Movie A is sci-fi.'')],
                 JObject [(''text'', JString ''Movie B is sci-fi.'')]] :: real json list"
  let ?mixed = "[JObject [(''text'', JString ''first'')],
                 JObject [(''title'', JString ''no text'')],
                 JObject [(''text'', JString '''')],
                 JObject [(''text'', JNumber (1::real))],
                 JString ''no object'',
                 JObject [(''text'', JString ''second'')]] :: real json list"
  have a: "map_of scenario_data ''Get'' = Some (JObject [(''LlamaIndex'', JArray ?items)])"
    by (simp add: scenario_data_def)
  have b: "map_of [(''LlamaIndex'', JArray ?items)] ''LlamaIndex'' = Some (JArray ?items)"
    by simp
  have c: "map_of [(''Get'', JObject [(''LlamaIndex'', JArray ?mixed)])] ''Get'' =
             Some (JObject [(''LlamaIndex'', JArray ?mixed)])"
    by simp
  have d: "map_of [(''LlamaIndex'', JArray ?mixed)] ''LlamaIndex'' = Some (JArray ?mixed)"
    by simp
  have e: "map_of [(''Get'', JObject [(''LlamaIndex'', JArray ([] :: real json list))])] ''Get'' =
             Some (JObject [(''LlamaIndex'', JArray [])])"
    by simp
  have f: "map_of [(''LlamaIndex'', JArray ([] :: real json list))] ''LlamaIndex'' =
             Some (JArray [])"
    by simp
  have g: "collectionName (weaviate scenario_service) = ''LlamaIndex'' \<and>
           graphql_Do scenario
             \<lparr>ClassName = collectionName (weaviate scenario_service), Fields = [''text''],
              NearVector = map (float32 scenario) [0.1, 0.2, 0.3],
              Limit = searchLimit (weaviate scenario_service)\<rparr> = Inr scenario_data"
    by (simp add: scenario_def scenario_service_def)
  from extractTextChunks_valid_response [OF a b] g
  have "extractTextChunks scenario_data ''LlamaIndex'' =
          (List.map_filter nonempty_text_field ?items, None) \<and>
        fst (SearchSimilar scenario (weaviate scenario_service) [0.1, 0.2, 0.3]) =
          (List.map_filter nonempty_text_field ?items, None)"
    by blast
  moreover from extractTextChunks_valid_response [OF c d]
  have "extractTextChunks [(''Get'', JObject [(''LlamaIndex'', JArray ?mixed)])] ''LlamaIndex'' =
          (List.map_filter nonempty_text_field ?mixed, None)"
    by blast
  moreover from extractTextChunks_valid_response [OF e f]
  have "extractTextChunks [(''Get'', JObject [(''LlamaIndex'', JArray ([] :: real json list))])]
          ''LlamaIndex'' = ([], None)"
    by blast
  ultimately show ?thesis
    by simp
qed

text \<open>
  C5. On a response whose \<^verbatim>\<open>Get\<close> field is missing or is no object, and on one whose
  \<^verbatim>\<open>Get\<close> object has no list under the name of the collection, the retriever fails with
  an "invalid GraphQL response" error (MalformedSearchResponse) and returns no passage;
  the search operation returns that failure whenever the search service answers with such
  a response.
\<close>

theorem extractTextChunks_malformed_response:
  assumes "(\<forall>get. map_of data ''Get'' \<noteq> Some (JObject get)) \<or>
           (\<exists>get. map_of data ''Get'' = Some (JObject get) \<and>
                  (\<forall>items. map_of get collection \<noteq> Some (JArray items)))"
  shows "fst (extractTextChunks data collection) = [] \<and>
         snd (extractTextChunks data collection) =
           Some (ErrNew (if \<forall>get. map_of data ''Get'' \<noteq> Some (JObject get)
                         then ''invalid GraphQL response: missing Get field''
                         else ''invalid GraphQL response: missing collection '' @ collection)) \<and>
         (\<forall>w s embedding.
            collectionName s = collection \<and>
            graphql_Do w \<lparr>ClassName = collectionName s, Fields = [''text''],
                          NearVector = map (float32 w) embedding,
                          Limit = searchLimit s\<rparr> = Inr data \<longrightarrow>
            fst (SearchSimilar w s embedding) = extractTextChunks data collection)"
proof -
  have get_None: "as_map v = None" if "\<forall>get. v \<noteq> Some (JObject get)" for v :: "'a json option"
    using that by (cases v rule: as_map.cases) simp_all
  have slice_None: "as_slice v = None" if "\<forall>items. v \<noteq> Some (JArray items)"
    for v :: "'a json option"
    using that by (cases v rule: as_slice.cases) simp_all
  have third: "\<forall>w s embedding.
            collectionName s = collection \<and>
            graphql_Do w \<lparr>ClassName = collectionName s, Fields = [''text''],
                          NearVector = map (float32 w) embedding,
                          Limit = searchLimit s\<rparr> = Inr data \<longrightarrow>
            fst (SearchSimilar w s embedding) = extractTextChunks data collection"
    by (auto simp add: SearchSimilar_def Let_def)
  show ?thesis
  proof (cases "\<forall>get. map_of data ''Get'' \<noteq> Some (JObject get)")
    case True
    then show ?thesis
      using third by (simp add: extractTextChunks_def get_None)
  next
    case False
    with assms obtain get where g: "map_of data ''Get'' = Some (JObject get)"
      and c: "\<forall>items. map_of get collection \<noteq> Some (JArray items)"
      by blast
    from g have "\<not> (\<forall>get. map_of data ''Get'' \<noteq> Some (JObject get))" by simp
    then show ?thesis
      using third g slice_None [OF c] by (simp add: extractTextChunks_def)
  qed
qed

theorem extractTextChunks_malformed_response_witness:
  "extractTextChunks [(''Errors'', (JString ''boom'' :: real json))] ''LlamaIndex'' =
     ([] , Some (ErrNew ''invalid GraphQL response: missing Get field'')) \<and>
   extractTextChunks [(''Get'', JArray ([] :: real json list))] ''LlamaIndex'' =
     ([], Some (ErrNew ''invalid GraphQL response: missing Get field'')) \<and>
   extractTextChunks [(''Get'', JObject [(''Other'', JArray ([] :: real json list))])]
     ''LlamaIndex'' =
     ([], Some (ErrNew ''invalid GraphQL response: missing collection LlamaIndex'')) \<and>
   extractTextChunks [(''Get'', JObject [(''LlamaIndex'', (JNull :: real json))])]
     ''LlamaIndex'' =
     ([], Some (ErrNew ''invalid GraphQL response: missing collection LlamaIndex''))"
proof -
  let ?d1 = "[(''Errors'', JString ''boom'')] :: (string \<times> real json) list"
  let ?d2 = "[(''Get'', JArray ([] :: real json list))]"
  let ?d3 = "[(''Get'', JObject [(''Other'', JArray ([] :: real json list))])]"
  let ?d4 = "[(''Get'', JObject [(''LlamaIndex'', (JNull :: real json))])]"
  have h1: "(\<forall>get. map_of ?d1 ''Get'' \<noteq> Some (JObject get)) \<or>
            (\<exists>get. map_of ?d1 ''Get'' = Some (JObject get) \<and>
                   (\<forall>items. map_of get ''LlamaIndex'' \<noteq> Some (JArray items)))"
    by simp
  have h2: "(\<forall>get. map_of ?d2 ''Get'' \<noteq> Some (JObject get)) \<or>
            (\<exists>get. map_of ?d2 ''Get'' = Some (JObject get) \<and>
                   (\<forall>items. map_of get ''LlamaIndex'' \<noteq> Some (JArray items)))"
    by simp
  have h3: "(\<forall>get. map_of ?d3 ''Get'' \<noteq> Some (JObject get)) \<or>
            (\<exists>get. map_of ?d3 ''Get'' = Some (JObject get) \<and>
                   (\<forall>items. map_of get ''LlamaIndex'' \<noteq> Some (JArray items)))"
    by simp
  have h4: "(\<forall>get. map_of ?d4 ''Get'' \<noteq> Some (JObject get)) \<or>
            (\<exists>get. map_of ?d4 ''Get'' = Some (JObject get) \<and>
                   (\<forall>items. map_of get ''LlamaIndex'' \<noteq> Some (JArray items)))"
    by simp
  note r1 = extractTextChunks_malformed_response [OF h1]
   and r2 = extractTextChunks_malformed_response [OF h2]
   and r3 = extractTextChunks_malformed_response [OF h3]
   and r4 = extractTextChunks_malformed_response [OF h4]
  note firsts = r1 [THEN conjunct1] r2 [THEN conjunct1] r3 [THEN conjunct1] r4 [THEN conjunct1]
  note seconds = r1 [THEN conjunct2, THEN conjunct1] r2 [THEN conjunct2, THEN conjunct1]
    r3 [THEN conjunct2, THEN conjunct1] r4 [THEN conjunct2, THEN conjunct1]
  from firsts seconds show ?thesis
    by (simp add: prod_eq_iff)
qed

section \<open>The embedding provider\<close>

text \<open>
  C6. When the embedding service answers with a body that decodes to an empty batch, or
  to a batch whose first vector is empty, the embedding provider fails and returns no
  vector: with the error "empty embedding response from TEI" on status 200, with the
  status error otherwise. And whatever the services do, the provider never succeeds with
  an embedding of length zero.
\<close>

theorem GetEmbedding_empty_response_fails:
  assumes "json_Marshal w \<lparr>Inputs = [text], Truncate = True, Normalize = True\<rparr> =
             Inr payloadBytes"
      and "http_NewRequest w ''POST'' (baseURL s @ ''/embed'') payloadBytes = Inr req"
      and "httpClient_Do w (req\<lparr>ContentType := ''application/json''\<rparr>) = Inr resp"
      and "Decode resp = Inr response"
      and "response = [] \<or> (\<exists>rest. response = [] # rest)"
  shows "fst (GetEmbedding w s text) =
           ([], Some (ErrNew (if StatusCode resp \<noteq> 200
                              then ''TEI server returned status '' @ Itoa (StatusCode resp)
                              else ''empty embedding response from TEI''))) \<and>
         (\<forall>w' :: ('a, 'b) world. \<forall>s' text'.
            snd (fst (GetEmbedding w' s' text')) = None \<longrightarrow>
            fst (fst (GetEmbedding w' s' text')) \<noteq> [])"
proof
  show "fst (GetEmbedding w s text) =
           ([], Some (ErrNew (if StatusCode resp \<noteq> 200
                              then ''TEI server returned status '' @ Itoa (StatusCode resp)
                              else ''empty embedding response from TEI'')))"
    using assms by (auto simp add: GetEmbedding_def Let_def)
next
  show "\<forall>w' :: ('a, 'b) world. \<forall>s' text'.
            snd (fst (GetEmbedding w' s' text')) = None \<longrightarrow>
            fst (fst (GetEmbedding w' s' text')) \<noteq> []"
    by (simp add: GetEmbedding_def Let_def split: sum.splits list.splits)
qed

theorem GetEmbedding_empty_response_fails_witness:
  "fst (GetEmbedding
          (scenario\<lparr>httpClient_Do := (\<lambda>r. Inr \<lparr>StatusCode = 200, Decode = Inr []\<rparr>)\<rparr>)
          (tei scenario_service) scenario_query) =
     ([], Some (ErrNew ''empty embedding response from TEI'')) \<and>
   fst (GetEmbedding
          (scenario\<lparr>httpClient_Do := (\<lambda>r. Inr \<lparr>StatusCode = 200, Decode = Inr [[], [1]]\<rparr>)\<rparr>)
          (tei scenario_service) scenario_query) =
     ([], Some (ErrNew ''empty embedding response from TEI'')) \<and>
   snd (fst (GetEmbedding scenario (tei scenario_service) scenario_query)) = None \<and>
   fst (fst (GetEmbedding scenario (tei scenario_service) scenario_query)) \<noteq> []"
proof -
  let ?w1 = "scenario\<lparr>httpClient_Do := (\<lambda>r. Inr \<lparr>StatusCode = 200, Decode = Inr []\<rparr>)\<rparr>"
  let ?w2 = "scenario\<lparr>httpClient_Do :=
               (\<lambda>r. Inr \<lparr>StatusCode = 200, Decode = Inr [[], [1]]\<rparr>)\<rparr>"
  let ?bytes = "scenario_query"
  let ?req = "\<lparr>Method = ''POST'', URL = baseURL (tei scenario_service) @ ''/embed'',
               ContentType = '''', Body = ?bytes\<rparr>"
  have m1: "json_Marshal ?w1 \<lparr>Inputs = [scenario_query], Truncate = True, Normalize = True\<rparr> =
              Inr ?bytes"
    and m2: "json_Marshal ?w2 \<lparr>Inputs = [scenario_query], Truncate = True, Normalize = True\<rparr> =
              Inr ?bytes"
    by (simp_all add: scenario_def)
  have n1: "http_NewRequest ?w1 ''POST'' (baseURL (tei scenario_service) @ ''/embed'') ?bytes =
              Inr ?req"
    and n2: "http_NewRequest ?w2 ''POST'' (baseURL (tei scenario_service) @ ''/embed'') ?bytes =
              Inr ?req"
    by (simp_all add: scenario_def)
  have d1: "httpClient_Do ?w1 (?req\<lparr>ContentType := ''application/json''\<rparr>) =
              Inr \<lparr>StatusCode = 200, Decode = Inr []\<rparr>"
    and d2: "httpClient_Do ?w2 (?req\<lparr>ContentType := ''application/json''\<rparr>) =
              Inr \<lparr>StatusCode = 200, Decode = Inr [[], [1]]\<rparr>"
    by simp_all
  have c1: "Decode \<lparr>StatusCode = 200, Decode = Inr ([] :: real list list)\<rparr> = Inr []"
    and c2: "Decode \<lparr>StatusCode = 200, Decode = Inr [[], [1 :: real]]\<rparr> = Inr [[], [1]]"
    by simp_all
  have e1: "([] :: real list list) = [] \<or> (\<exists>rest. ([] :: real list list) = [] # rest)"
    and e2: "[[], [1 :: real]] = [] \<or> (\<exists>rest. [[], [1 :: real]] = [] # rest)"
    by simp_all
  note r1 = GetEmbedding_empty_response_fails [OF m1 n1 d1 c1 e1]
   and r2 = GetEmbedding_empty_response_fails [OF m2 n2 d2 c2 e2]
  have ok: "snd (fst (GetEmbedding scenario (tei scenario_service) scenario_query)) = None"
    by (simp add: GetEmbedding_def Let_def scenario_def)
  from r1 [THEN conjunct2] ok
  have "fst (fst (GetEmbedding scenario (tei scenario_service) scenario_query)) \<noteq> []"
    by blast
  with r1 [THEN conjunct1] r2 [THEN conjunct1] ok show ?thesis
    by simp
qed

text \<open>
  C7, as the code has it. Once the request is built, the embedding provider fails when the
  network call errors, when the status is not 200, when the body does not decode, and when
  the decoded batch is empty or its first vector is empty. A batch whose first vector is
  not empty succeeds with that vector, whatever the later vectors of the batch are.
\<close>

theorem GetEmbedding_failure_modes:
  assumes "json_Marshal w \<lparr>Inputs = [text], Truncate = True, Normalize = True\<rparr> =
             Inr payloadBytes"
      and "http_NewRequest w ''POST'' (baseURL s @ ''/embed'') payloadBytes = Inr req"
  shows "(\<forall>e. httpClient_Do w (req\<lparr>ContentType := ''application/json''\<rparr>) = Inl e \<longrightarrow>
            fst (GetEmbedding w s text) = ([], Some (ErrWrap ''TEI request failed'' e))) \<and>
         (\<forall>resp. httpClient_Do w (req\<lparr>ContentType := ''application/json''\<rparr>) = Inr resp \<and>
            StatusCode resp \<noteq> 200 \<longrightarrow>
            fst (GetEmbedding w s text) =
              ([], Some (ErrNew (''TEI server returned status '' @ Itoa (StatusCode resp))))) \<and>
         (\<forall>resp e. httpClient_Do w (req\<lparr>ContentType := ''application/json''\<rparr>) = Inr resp \<and>
            StatusCode resp = 200 \<and> Decode resp = Inl e \<longrightarrow>
            fst (GetEmbedding w s text) =
              ([], Some (ErrWrap ''failed to decode TEI response'' e))) \<and>
         (\<forall>resp rest. httpClient_Do w (req\<lparr>ContentType := ''application/json''\<rparr>) = Inr resp \<and>
            StatusCode resp = 200 \<and> (Decode resp = Inr [] \<or> Decode resp = Inr ([] # rest)) \<longrightarrow>
            fst (GetEmbedding w s text) =
              ([], Some (ErrNew ''empty embedding response from TEI''))) \<and>
         (\<forall>resp v rest. httpClient_Do w (req\<lparr>ContentType := ''application/json''\<rparr>) = Inr resp \<and>
            StatusCode resp = 200 \<and> Decode resp = Inr (v # rest) \<and> v \<noteq> [] \<longrightarrow>
            fst (GetEmbedding w s text) = (v, None))"
  using assms by (auto simp add: GetEmbedding_def Let_def)

theorem GetEmbedding_failure_modes_witness:
  "fst (GetEmbedding (scenario\<lparr>httpClient_Do := (\<lambda>r. Inl timeout_error)\<rparr>)
          (tei scenario_service) scenario_query) =
     ([], Some (ErrWrap ''TEI request failed'' timeout_error)) \<and>
   fst (GetEmbedding
          (scenario\<lparr>httpClient_Do :=
             (\<lambda>r. Inr \<lparr>StatusCode = 503, Decode = Inr [[0.1, 0.2, 0.3]]\<rparr>)\<rparr>)
          (tei scenario_service) scenario_query) =
     ([], Some (ErrNew ''TEI server returned status 503'')) \<and>
   fst (GetEmbedding
          (scenario\<lparr>httpClient_Do := (\<lambda>r. Inr \<lparr>StatusCode = 200, Decode = Inr [[]]\<rparr>)\<rparr>)
          (tei scenario_service) scenario_query) =
     ([], Some (ErrNew ''empty embedding response from TEI'')) \<and>
   fst (GetEmbedding scenario (tei scenario_service) scenario_query) =
     ([0.1, 0.2, 0.3], None)"
proof -
  let ?w1 = "scenario\<lparr>httpClient_Do := (\<lambda>r. Inl timeout_error)\<rparr>"
  let ?w2 = "scenario\<lparr>httpClient_Do :=
               (\<lambda>r. Inr \<lparr>StatusCode = 503, Decode = Inr [[0.1, 0.2, 0.3]]\<rparr>)\<rparr>"
  let ?w3 = "scenario\<lparr>httpClient_Do := (\<lambda>r. Inr \<lparr>StatusCode = 200, Decode = Inr [[]]\<rparr>)\<rparr>"
  let ?payload = "\<lparr>Inputs = [scenario_query], Truncate = True, Normalize = True\<rparr>"
  let ?req = "\<lparr>Method = ''POST'', URL = baseURL (tei scenario_service) @ ''/embed'',
               ContentType = '''', Body = scenario_query\<rparr>"
  have m: "json_Marshal ?w1 ?payload = Inr scenario_query"
          "json_Marshal ?w2 ?payload = Inr scenario_query"
          "json_Marshal ?w3 ?payload = Inr scenario_query"
          "json_Marshal scenario ?payload = Inr scenario_query"
    by (simp_all add: scenario_def)
  have n: "http_NewRequest ?w1 ''POST'' (baseURL (tei scenario_service) @ ''/embed'')
             scenario_query = Inr ?req"
          "http_NewRequest ?w2 ''POST'' (baseURL (tei scenario_service) @ ''/embed'')
             scenario_query = Inr ?req"
          "http_NewRequest ?w3 ''POST'' (baseURL (tei scenario_service) @ ''/embed'')
             scenario_query = Inr ?req"
          "http_NewRequest scenario ''POST'' (baseURL (tei scenario_service) @ ''/embed'')
             scenario_query = Inr ?req"
    by (simp_all add: scenario_def)
  have d1: "httpClient_Do ?w1 (?req\<lparr>ContentType := ''application/json''\<rparr>) = Inl timeout_error"
    by simp
  have d2: "httpClient_Do ?w2 (?req\<lparr>ContentType := ''application/json''\<rparr>) =
              Inr \<lparr>StatusCode = 503, Decode = Inr [[0.1, 0.2, 0.3]]\<rparr> \<and>
            StatusCode \<lparr>StatusCode = 503, Decode = Inr [[0.1, 0.2, 0.3 :: real]]\<rparr> \<noteq> 200"
    by simp
  have d3: "httpClient_Do ?w3 (?req\<lparr>ContentType := ''application/json''\<rparr>) =
              Inr \<lparr>StatusCode = 200, Decode = Inr [[]]\<rparr> \<and>
            StatusCode \<lparr>StatusCode = 200, Decode = Inr [[] :: real list]\<rparr> = 200 \<and>
            (Decode \<lparr>StatusCode = 200, Decode = Inr [[] :: real list]\<rparr> = Inr [] \<or>
             Decode \<lparr>StatusCode = 200, Decode = Inr [[] :: real list]\<rparr> = Inr ([] # []))"
    by simp
  have d4: "httpClient_Do scenario (?req\<lparr>ContentType := ''application/json''\<rparr>) =
              Inr \<lparr>StatusCode = 200, Decode = Inr [[0.1, 0.2, 0.3]]\<rparr> \<and>
            StatusCode \<lparr>StatusCode = 200, Decode = Inr [[0.1, 0.2, 0.3 :: real]]\<rparr> = 200 \<and>
            Decode \<lparr>StatusCode = 200, Decode = Inr [[0.1, 0.2, 0.3 :: real]]\<rparr> =
              Inr ([0.1, 0.2, 0.3] # []) \<and> [0.1, 0.2, 0.3 :: real] \<noteq> []"
    by (simp add: scenario_def)
  note r1 = GetEmbedding_failure_modes [OF m(1) n(1), THEN conjunct1, rule_format, OF d1]
  note r2 = GetEmbedding_failure_modes [OF m(2) n(2), THEN conjunct2, THEN conjunct1,
              rule_format, OF d2]
  note r3 = GetEmbedding_failure_modes [OF m(3) n(3), THEN conjunct2, THEN conjunct2,
              THEN conjunct2, THEN conjunct1, rule_format, OF d3]
  note r4 = GetEmbedding_failure_modes [OF m(4) n(4), THEN conjunct2, THEN conjunct2,
              THEN conjunct2, THEN conjunct2, rule_format, OF d4]
  have "Itoa 503 = ''503''"
    by (simp add: Itoa_def digits.simps)
  with r1 r2 r3 r4 show ?thesis by simp
qed

text \<open>
  C7 as stated fails: a batch whose second vector is empty, after a first vector that is
  not, is a success.
\<close>

theorem GetEmbedding_later_empty_vector_succeeds:
  "[] \<in> set [[0.5 :: real], []] \<and>
   fst (GetEmbedding
          (scenario\<lparr>httpClient_Do := (\<lambda>r. Inr \<lparr>StatusCode = 200, Decode = Inr [[0.5], []]\<rparr>)\<rparr>)
          (tei scenario_service) scenario_query) = ([0.5], None)"
  by (simp add: GetEmbedding_def Let_def scenario_def)

section \<open>The orchestrator\<close>

lemma GetEmbedding_calls: "filter later_stage (snd (GetEmbedding w s text)) = []"
  by (simp add: GetEmbedding_def Let_def split: sum.splits list.splits)

lemma SearchSimilar_calls: "filter later_stage (snd (SearchSimilar w s embedding)) = []"
  by (simp add: SearchSimilar_def Let_def split: sum.splits)

lemma Query_embedding_failed:
  assumes "GetEmbedding w (tei s) query = ((embedding, Some err), t1)"
  shows "Query w s query =
           (('''', Some (ErrWrap ''failed to get embedding'' err)), Call_Query query # t1)"
  using assms by (simp add: Query_def)

lemma Query_search_failed:
  assumes "GetEmbedding w (tei s) query = ((embedding, None), t1)"
      and "SearchSimilar w (weaviate s) embedding = ((chunks, Some err), t2)"
  shows "Query w s query =
           (('''', Some (ErrWrap ''failed to search Weaviate'' err)), Call_Query query # t1 @ t2)"
  using assms by (simp add: Query_def)

lemma Query_generation_failed:
  assumes "GetEmbedding w (tei s) query = ((embedding, None), t1)"
      and "SearchSimilar w (weaviate s) embedding = ((chunks, None), t2)"
      and "GenerateResponse w (vllm s) (Sprintf_promptTemplate (buildContext chunks) query) =
             ((answer, Some err), t3)"
  shows "Query w s query =
           (('''', Some (ErrWrap ''failed to generate answer'' err)),
            Call_Query query # t1 @ t2 @ [Call_buildContext chunks] @ t3)"
  using assms by (simp add: Query_def)

lemma Query_succeeded:
  assumes "GetEmbedding w (tei s) query = ((embedding, None), t1)"
      and "SearchSimilar w (weaviate s) embedding = ((chunks, None), t2)"
      and "GenerateResponse w (vllm s) (Sprintf_promptTemplate (buildContext chunks) query) =
             ((answer, None), t3)"
  shows "Query w s query =
           ((answer, None), Call_Query query # t1 @ t2 @ [Call_buildContext chunks] @ t3)"
  using assms by (simp add: Query_def)

lemma GetEmbedding_stages:
  "prefix (map stage_of (snd (GetEmbedding w s text))) [1]"
  by (simp add: GetEmbedding_def Let_def split: sum.splits list.splits)

lemma GetEmbedding_stages_ok:
  assumes "GetEmbedding w s text = ((embedding, None), t1)"
  shows "map stage_of t1 = [1]"
  using assms
  by (auto simp add: GetEmbedding_def Let_def split: sum.splits list.splits if_splits)

lemma SearchSimilar_stages: "map stage_of (snd (SearchSimilar w s embedding)) = [2]"
  by (simp add: SearchSimilar_def Let_def split: sum.splits)

lemma GenerateResponse_stages: "map stage_of (snd (GenerateResponse w s prompt)) = [4]"
  by (simp add: GenerateResponse_def Let_def split: sum.splits list.splits)

lemma extractTextChunks_error_kind:
  assumes "snd (extractTextChunks data collection) = Some err"
  shows "is_MalformedSearchResponse err"
  using assms by (auto simp add: extractTextChunks_def split: option.splits)

text \<open>
  C1, as the code has it. The orchestrator runs the embedding stage, the search stage,
  the context builder and the generator in this order and stops at the first stage that
  fails, returning the empty answer and the error of that stage wrapped under the name of
  the stage. When the embedding stage fails, no later stage is called. When the search
  stage fails, the error is wrapped as "failed to search Weaviate", the calls made are
  those of the embedding and of the search stage, and neither the prompt builder nor the
  generator is called; the wrapped error is "Weaviate query failed" (SearchUnavailable)
  around the cause when the call to the search service failed, and an "invalid GraphQL
  response" error (MalformedSearchResponse) when the service answered with a response of
  the wrong shape. When both stages succeed, the context is built from the passages and
  the generator is called with the prompt made of that context and the query; its failure
  is wrapped as "failed to generate answer", its answer is returned.
\<close>

theorem Query_composes_stages_in_order:
  "(\<forall>embedding err t1.
      GetEmbedding w (tei s) query = ((embedding, Some err), t1) \<longrightarrow>
      Query w s query =
        (('''', Some (ErrWrap ''failed to get embedding'' err)), Call_Query query # t1) \<and>
      prefix (map stage_of (snd (Query w s query))) [0, 1]) \<and>
   (\<forall>embedding t1 chunks err t2.
      GetEmbedding w (tei s) query = ((embedding, None), t1) \<and>
      SearchSimilar w (weaviate s) embedding = ((chunks, Some err), t2) \<longrightarrow>
      Query w s query =
        (('''', Some (ErrWrap ''failed to search Weaviate'' err)),
         Call_Query query # t1 @ t2) \<and>
      map stage_of (snd (Query w s query)) = [0, 1, 2] \<and>
      filter later_stage (snd (Query w s query)) = [] \<and>
      (\<forall>cause.
         graphql_Do w \<lparr>ClassName = collectionName (weaviate s), Fields = [''text''],
                       NearVector = map (float32 w) embedding,
                       Limit = searchLimit (weaviate s)\<rparr> = Inl cause \<longrightarrow>
         err = ErrWrap ''Weaviate query failed'' cause \<and> is_SearchUnavailable err) \<and>
      (\<forall>data.
         graphql_Do w \<lparr>ClassName = collectionName (weaviate s), Fields = [''text''],
                       NearVector = map (float32 w) embedding,
                       Limit = searchLimit (weaviate s)\<rparr> = Inr data \<longrightarrow>
         is_MalformedSearchResponse err \<and> \<not> is_SearchUnavailable err)) \<and>
   (\<forall>embedding t1 chunks t2 answer err t3.
      GetEmbedding w (tei s) query = ((embedding, None), t1) \<and>
      SearchSimilar w (weaviate s) embedding = ((chunks, None), t2) \<and>
      GenerateResponse w (vllm s) (Sprintf_promptTemplate (buildContext chunks) query) =
        ((answer, Some err), t3) \<longrightarrow>
      Query w s query =
        (('''', Some (ErrWrap ''failed to generate answer'' err)),
         Call_Query query # t1 @ t2 @ [Call_buildContext chunks] @ t3) \<and>
      map stage_of (snd (Query w s query)) = [0, 1, 2, 3, 4]) \<and>
   (\<forall>embedding t1 chunks t2 answer t3.
      GetEmbedding w (tei s) query = ((embedding, None), t1) \<and>
      SearchSimilar w (weaviate s) embedding = ((chunks, None), t2) \<and>
      GenerateResponse w (vllm s) (Sprintf_promptTemplate (buildContext chunks) query) =
        ((answer, None), t3) \<longrightarrow>
      Query w s query =
        ((answer, None), Call_Query query # t1 @ t2 @ [Call_buildContext chunks] @ t3) \<and>
      map stage_of (snd (Query w s query)) = [0, 1, 2, 3, 4])"
proof (intro conjI allI impI; (elim conjE)?)
  fix embedding err t1
  assume e: "GetEmbedding w (tei s) query = ((embedding, Some err), t1)"
  show q: "Query w s query =
        (('''', Some (ErrWrap ''failed to get embedding'' err)), Call_Query query # t1)"
    using e by (rule Query_embedding_failed)
  show "prefix (map stage_of (snd (Query w s query))) [0, 1]"
    using GetEmbedding_stages [of w "tei s" query] by (simp add: q e)
next
  fix embedding t1 chunks err t2
  assume e: "GetEmbedding w (tei s) query = ((embedding, None), t1)"
    and f: "SearchSimilar w (weaviate s) embedding = ((chunks, Some err), t2)"
  show q: "Query w s query =
        (('''', Some (ErrWrap ''failed to search Weaviate'' err)),
         Call_Query query # t1 @ t2)"
    using e f by (rule Query_search_failed)
  show "map stage_of (snd (Query w s query)) = [0, 1, 2]"
    using GetEmbedding_stages_ok [OF e] SearchSimilar_stages [of w "weaviate s" embedding]
    by (simp add: q f)
  show "filter later_stage (snd (Query w s query)) = []"
    using GetEmbedding_calls [of w "tei s" query]
      SearchSimilar_calls [of w "weaviate s" embedding]
    by (simp add: q e f)
next
  fix embedding t1 chunks err t2 cause
  assume f: "SearchSimilar w (weaviate s) embedding = ((chunks, Some err), t2)"
    and d: "graphql_Do w \<lparr>ClassName = collectionName (weaviate s), Fields = [''text''],
                       NearVector = map (float32 w) embedding,
                       Limit = searchLimit (weaviate s)\<rparr> = Inl cause"
  from f d show c: "err = ErrWrap ''Weaviate query failed'' cause"
    by (simp add: SearchSimilar_def Let_def)
  show "is_SearchUnavailable err"
    by (simp add: c)
next
  fix embedding t1 chunks err t2 data
  assume f: "SearchSimilar w (weaviate s) embedding = ((chunks, Some err), t2)"
    and d: "graphql_Do w \<lparr>ClassName = collectionName (weaviate s), Fields = [''text''],
                       NearVector = map (float32 w) embedding,
                       Limit = searchLimit (weaviate s)\<rparr> = Inr data"
  from f d have "snd (extractTextChunks data (collectionName (weaviate s))) = Some err"
    by (simp add: SearchSimilar_def Let_def)
  then show m: "is_MalformedSearchResponse err"
    by (rule extractTextChunks_error_kind)
  then show "\<not> is_SearchUnavailable err"
    by (cases err) simp_all
next
  fix embedding t1 chunks t2 answer err t3
  assume e: "GetEmbedding w (tei s) query = ((embedding, None), t1)"
    and f: "SearchSimilar w (weaviate s) embedding = ((chunks, None), t2)"
    and g: "GenerateResponse w (vllm s) (Sprintf_promptTemplate (buildContext chunks) query) =
              ((answer, Some err), t3)"
  show q: "Query w s query =
        (('''', Some (ErrWrap ''failed to generate answer'' err)),
         Call_Query query # t1 @ t2 @ [Call_buildContext chunks] @ t3)"
    using e f g by (rule Query_generation_failed)
  show "map stage_of (snd (Query w s query)) = [0, 1, 2, 3, 4]"
    using GetEmbedding_stages_ok [OF e] SearchSimilar_stages [of w "weaviate s" embedding]
      GenerateResponse_stages [of w "vllm s"
        "Sprintf_promptTemplate (buildContext chunks) query"]
    by (simp add: q f g)
next
  fix embedding t1 chunks t2 answer t3
  assume e: "GetEmbedding w (tei s) query = ((embedding, None), t1)"
    and f: "SearchSimilar w (weaviate s) embedding = ((chunks, None), t2)"
    and g: "GenerateResponse w (vllm s) (Sprintf_promptTemplate (buildContext chunks) query) =
              ((answer, None), t3)"
  show q: "Query w s query =
        ((answer, None), Call_Query query # t1 @ t2 @ [Call_buildContext chunks] @ t3)"
    using e f g by (rule Query_succeeded)
  show "map stage_of (snd (Query w s query)) = [0, 1, 2, 3, 4]"
    using GetEmbedding_stages_ok [OF e] SearchSimilar_stages [of w "weaviate s" embedding]
      GenerateResponse_stages [of w "vllm s"
        "Sprintf_promptTemplate (buildContext chunks) query"]
    by (simp add: q f g)
qed

theorem Query_composes_stages_in_order_witness:
  "Query (scenario\<lparr>httpClient_Do := (\<lambda>r. Inl timeout_error)\<rparr>) scenario_service scenario_query =
     (('''', Some (ErrWrap ''failed to get embedding''
                    (ErrWrap ''TEI request failed'' timeout_error))),
      [Call_Query scenario_query,
       Call_TEI \<lparr>Method = ''POST'', URL = ''http://localhost:8082/embed'',
                 ContentType = ''application/json'', Body = scenario_query\<rparr>]) \<and>
   Query (scenario\<lparr>graphql_Do := (\<lambda>q. Inl timeout_error)\<rparr>) scenario_service scenario_query =
     (('''', Some (ErrWrap ''failed to search Weaviate''
                    (ErrWrap ''Weaviate query failed'' timeout_error))),
      [Call_Query scenario_query,
       Call_TEI \<lparr>Method = ''POST'', URL = ''http://localhost:8082/embed'',
                 ContentType = ''application/json'', Body = scenario_query\<rparr>,
       Call_Weaviate \<lparr>ClassName = ''LlamaIndex'', Fields = [''text''],
                      NearVector = [0.1, 0.2, 0.3], Limit = 3\<rparr>]) \<and>
   filter later_stage
     (snd (Query (scenario\<lparr>graphql_Do := (\<lambda>q. Inl timeout_error)\<rparr>) scenario_service
             scenario_query)) = [] \<and>
   is_SearchUnavailable (ErrWrap ''Weaviate query failed'' timeout_error) \<and>
   Error (ErrWrap ''failed to search Weaviate''
           (ErrWrap ''Weaviate query failed'' timeout_error)) =
     ''failed to search Weaviate: Weaviate query failed: context deadline exceeded'' \<and>
   fst (Query (scenario\<lparr>graphql_Do := (\<lambda>q. Inr [])\<rparr>) scenario_service scenario_query) =
     ('''', Some (ErrWrap ''failed to search Weaviate''
                   (ErrNew ''invalid GraphQL response: missing Get field''))) \<and>
   map stage_of
     (snd (Query (scenario\<lparr>graphql_Do := (\<lambda>q. Inr [])\<rparr>) scenario_service scenario_query)) =
     [0, 1, 2] \<and>
   is_MalformedSearchResponse (ErrNew ''invalid GraphQL response: missing Get field'') \<and>
   fst (Query (scenario\<lparr>CreateChatCompletion := (\<lambda>r. Inr \<lparr>Choices = []\<rparr>)\<rparr>) scenario_service
          scenario_query) =
     ('''', Some (ErrWrap ''failed to generate answer''
                   (ErrNew ''no completion choices returned from vLLM''))) \<and>
   map stage_of
     (snd (Query (scenario\<lparr>CreateChatCompletion := (\<lambda>r. Inr \<lparr>Choices = []\<rparr>)\<rparr>)
             scenario_service scenario_query)) = [0, 1, 2, 3, 4] \<and>
   Query scenario scenario_service scenario_query =
     ((''Both movies are science fiction.'', None),
      [Call_Query scenario_query,
       Call_TEI \<lparr>Method = ''POST'', URL = ''http://localhost:8082/embed'',
                 ContentType = ''application/json'', Body = scenario_query\<rparr>,
       Call_Weaviate \<lparr>ClassName = ''LlamaIndex'', Fields = [''text''],
                      NearVector = [0.1, 0.2, 0.3], Limit = 3\<rparr>,
       Call_buildContext [''Movie A is sci-fi.'', ''Movie B is sci-fi.''],
       Call_vLLM \<lparr>Model = ''microsoft/Phi-3-mini-128k-instruct'',
                  Messages = [\<lparr>Role = ''user'',
                    Content = Sprintf_promptTemplate
                      (buildContext [''Movie A is sci-fi.'', ''Movie B is sci-fi.''])
                      scenario_query\<rparr>],
                  MaxTokens = 4096, Stop = [''<|eot_id|>'']\<rparr>])"
proof -
  let ?we = "scenario\<lparr>httpClient_Do := (\<lambda>r. Inl timeout_error)\<rparr>"
  let ?wt = "scenario\<lparr>graphql_Do := (\<lambda>q. Inl timeout_error)\<rparr>"
  let ?wm = "scenario\<lparr>graphql_Do := (\<lambda>q. Inr [])\<rparr>"
  let ?wg = "scenario\<lparr>CreateChatCompletion := (\<lambda>r. Inr \<lparr>Choices = []\<rparr>)\<rparr>"
  let ?t1 = "[Call_TEI \<lparr>Method = ''POST'', URL = ''http://localhost:8082/embed'',
                ContentType = ''application/json'', Body = scenario_query\<rparr>] :: real call list"
  let ?gq = "\<lparr>ClassName = ''LlamaIndex'', Fields = [''text''],
              NearVector = [0.1, 0.2, 0.3 :: real], Limit = 3\<rparr>"
  let ?t2 = "[Call_Weaviate ?gq]"
  let ?chunks = "[''Movie A is sci-fi.'', ''Movie B is sci-fi.'']"
  let ?prompt = "Sprintf_promptTemplate (buildContext ?chunks) scenario_query"
  let ?t3 = "[Call_vLLM \<lparr>Model = ''microsoft/Phi-3-mini-128k-instruct'',
                Messages = [\<lparr>Role = ''user'', Content = ?prompt\<rparr>],
                MaxTokens = 4096, Stop = [''<|eot_id|>'']\<rparr>] :: real call list"
  have ee: "GetEmbedding ?we (tei scenario_service) scenario_query =
              (([], Some (ErrWrap ''TEI request failed'' timeout_error)), ?t1)"
    by (simp add: GetEmbedding_def Let_def scenario_def scenario_service_def)
  have et: "GetEmbedding ?wt (tei scenario_service) scenario_query =
              (([0.1, 0.2, 0.3], None), ?t1)"
    and em: "GetEmbedding ?wm (tei scenario_service) scenario_query =
              (([0.1, 0.2, 0.3], None), ?t1)"
    and eg: "GetEmbedding ?wg (tei scenario_service) scenario_query =
              (([0.1, 0.2, 0.3], None), ?t1)"
    and es: "GetEmbedding scenario (tei scenario_service) scenario_query =
              (([0.1, 0.2, 0.3], None), ?t1)"
    by (simp_all add: GetEmbedding_def Let_def scenario_def scenario_service_def)
  have st: "SearchSimilar ?wt (weaviate scenario_service) [0.1, 0.2, 0.3] =
              (([], Some (ErrWrap ''Weaviate query failed'' timeout_error)), ?t2)"
    by (simp add: SearchSimilar_def Let_def scenario_def scenario_service_def)
  have dt: "graphql_Do ?wt
              \<lparr>ClassName = collectionName (weaviate scenario_service), Fields = [''text''],
               NearVector = map (float32 ?wt) [0.1, 0.2, 0.3],
               Limit = searchLimit (weaviate scenario_service)\<rparr> = Inl timeout_error"
    by simp
  have sm: "SearchSimilar ?wm (weaviate scenario_service) [0.1, 0.2, 0.3] =
              (([], Some (ErrNew ''invalid GraphQL response: missing Get field'')), ?t2)"
    by (simp add: SearchSimilar_def Let_def extractTextChunks_def scenario_def
          scenario_service_def)
  have dm: "graphql_Do ?wm
              \<lparr>ClassName = collectionName (weaviate scenario_service), Fields = [''text''],
               NearVector = map (float32 ?wm) [0.1, 0.2, 0.3],
               Limit = searchLimit (weaviate scenario_service)\<rparr> = Inr []"
    by simp
  have sg: "SearchSimilar ?wg (weaviate scenario_service) [0.1, 0.2, 0.3] =
              ((?chunks, None), ?t2)"
    and ss: "SearchSimilar scenario (weaviate scenario_service) [0.1, 0.2, 0.3] =
              ((?chunks, None), ?t2)"
    by (simp_all add: SearchSimilar_def Let_def extractTextChunks_def scenario_def
          scenario_data_def scenario_service_def)
  have gg: "GenerateResponse ?wg (vllm scenario_service) ?prompt =
              (('''', Some (ErrNew ''no completion choices returned from vLLM'')), ?t3)"
    by (simp add: GenerateResponse_def scenario_service_def)
  have gs: "GenerateResponse scenario (vllm scenario_service) ?prompt =
              ((''Both movies are science fiction.'', None), ?t3)"
    by (simp add: GenerateResponse_def scenario_def scenario_service_def)
  note re = Query_composes_stages_in_order [of ?we scenario_service scenario_query,
              THEN conjunct1, rule_format, OF ee]
  note rt = Query_composes_stages_in_order [of ?wt scenario_service scenario_query,
              THEN conjunct2, THEN conjunct1, rule_format, OF conjI [OF et st]]
  note rm = Query_composes_stages_in_order [of ?wm scenario_service scenario_query,
              THEN conjunct2, THEN conjunct1, rule_format, OF conjI [OF em sm]]
  note rg = Query_composes_stages_in_order [of ?wg scenario_service scenario_query,
              THEN conjunct2, THEN conjunct2, THEN conjunct1, rule_format,
              OF conjI [OF eg conjI [OF sg gg]]]
  note rs = Query_composes_stages_in_order [of scenario scenario_service scenario_query,
              THEN conjunct2, THEN conjunct2, THEN conjunct2, rule_format,
              OF conjI [OF es conjI [OF ss gs]]]
  have unavailable: "is_SearchUnavailable (ErrWrap ''Weaviate query failed'' timeout_error)"
    using rt [THEN conjunct2, THEN conjunct2, THEN conjunct2, THEN conjunct1, rule_format,
              OF dt] by simp
  have malformed:
    "is_MalformedSearchResponse (ErrNew ''invalid GraphQL response: missing Get field'')"
    using rm [THEN conjunct2, THEN conjunct2, THEN conjunct2, THEN conjunct2, rule_format,
              OF dm] by simp
  from re [THEN conjunct1] rt [THEN conjunct1]
    rt [THEN conjunct2, THEN conjunct2, THEN conjunct1]
    rm [THEN conjunct1] rm [THEN conjunct2, THEN conjunct1]
    rg [THEN conjunct1] rg [THEN conjunct2] rs [THEN conjunct1] unavailable malformed
  show ?thesis
    by (simp add: timeout_error_def)
qed

text \<open>
  C1 as stated fails: when the search service answers with a response that has no
  \<^verbatim>\<open>Get\<close> field, the search stage fails and the orchestrator returns, wrapped under the
  name of the stage, an "invalid GraphQL response" error (MalformedSearchResponse), which
  is no SearchUnavailable failure.
\<close>

theorem Query_malformed_search_failure_not_SearchUnavailable:
  "snd (fst (SearchSimilar (scenario\<lparr>graphql_Do := (\<lambda>q. Inr [])\<rparr>)
               (weaviate scenario_service) [0.1, 0.2, 0.3])) =
     Some (ErrNew ''invalid GraphQL response: missing Get field'') \<and>
   fst (Query (scenario\<lparr>graphql_Do := (\<lambda>q. Inr [])\<rparr>) scenario_service scenario_query) =
     ('''', Some (ErrWrap ''failed to search Weaviate''
                   (ErrNew ''invalid GraphQL response: missing Get field''))) \<and>
   is_MalformedSearchResponse (ErrNew ''invalid GraphQL response: missing Get field'') \<and>
   \<not> is_SearchUnavailable (ErrNew ''invalid GraphQL response: missing Get field'')"
  by (simp add: Query_def GetEmbedding_def SearchSimilar_def extractTextChunks_def Let_def
        scenario_def scenario_service_def)

text \<open>
  C10. Whenever the orchestrator returns an error, the answer it returns with it is the
  empty string; and each stage that fails makes it return an error: the stage's error
  wrapped under the name of the stage, with the empty answer.
\<close>

theorem Query_failure_returns_empty_answer:
  "(snd (fst (Query w s query)) \<noteq> None \<longrightarrow> fst (fst (Query w s query)) = '''') \<and>
   (\<forall>embedding err t1.
      GetEmbedding w (tei s) query = ((embedding, Some err), t1) \<longrightarrow>
      fst (Query w s query) = ('''', Some (ErrWrap ''failed to get embedding'' err))) \<and>
   (\<forall>embedding t1 chunks err t2.
      GetEmbedding w (tei s) query = ((embedding, None), t1) \<and>
      SearchSimilar w (weaviate s) embedding = ((chunks, Some err), t2) \<longrightarrow>
      fst (Query w s query) = ('''', Some (ErrWrap ''failed to search Weaviate'' err))) \<and>
   (\<forall>embedding t1 chunks t2 answer err t3.
      GetEmbedding w (tei s) query = ((embedding, None), t1) \<and>
      SearchSimilar w (weaviate s) embedding = ((chunks, None), t2) \<and>
      GenerateResponse w (vllm s) (Sprintf_promptTemplate (buildContext chunks) query) =
        ((answer, Some err), t3) \<longrightarrow>
      fst (Query w s query) = ('''', Some (ErrWrap ''failed to generate answer'' err)))"
proof (intro conjI allI impI)
  assume "snd (fst (Query w s query)) \<noteq> None"
  then show "fst (fst (Query w s query)) = ''''"
    by (simp add: Query_def Let_def split: prod.splits option.splits)
qed (simp_all add: Query_embedding_failed Query_search_failed Query_generation_failed)

theorem Query_failure_returns_empty_answer_witness:
  "fst (Query (scenario\<lparr>httpClient_Do := (\<lambda>r. Inl timeout_error)\<rparr>) scenario_service
          scenario_query) =
     ('''', Some (ErrWrap ''failed to get embedding''
                   (ErrWrap ''TEI request failed'' timeout_error))) \<and>
   fst (Query (scenario\<lparr>graphql_Do := (\<lambda>q. Inr [])\<rparr>) scenario_service scenario_query) =
     ('''', Some (ErrWrap ''failed to search Weaviate''
                   (ErrNew ''invalid GraphQL response: missing Get field''))) \<and>
   fst (Query (scenario\<lparr>CreateChatCompletion := (\<lambda>r. Inr \<lparr>Choices = []\<rparr>)\<rparr>) scenario_service
          scenario_query) =
     ('''', Some (ErrWrap ''failed to generate answer''
                   (ErrNew ''no completion choices returned from vLLM''))) \<and>
   snd (fst (Query (scenario\<lparr>graphql_Do := (\<lambda>q. Inr [])\<rparr>) scenario_service scenario_query))
     \<noteq> None \<and>
   fst (fst (Query (scenario\<lparr>graphql_Do := (\<lambda>q. Inr [])\<rparr>) scenario_service scenario_query))
     = ''''"
proof -
  let ?w1 = "scenario\<lparr>httpClient_Do := (\<lambda>r. Inl timeout_error)\<rparr>"
  let ?w2 = "scenario\<lparr>graphql_Do := (\<lambda>q. Inr [])\<rparr>"
  let ?w3 = "scenario\<lparr>CreateChatCompletion := (\<lambda>r. Inr \<lparr>Choices = []\<rparr>)\<rparr>"
  let ?t1 = "[Call_TEI \<lparr>Method = ''POST'', URL = ''http://localhost:8082/embed'',
                ContentType = ''application/json'', Body = scenario_query\<rparr>] :: real call list"
  let ?t2 = "[Call_Weaviate \<lparr>ClassName = ''LlamaIndex'', Fields = [''text''],
                NearVector = [0.1, 0.2, 0.3 :: real], Limit = 3\<rparr>]"
  let ?chunks = "[''Movie A is sci-fi.'', ''Movie B is sci-fi.'']"
  let ?t3 = "[Call_vLLM \<lparr>Model = ''microsoft/Phi-3-mini-128k-instruct'',
                Messages = [\<lparr>Role = ''user'',
                  Content = Sprintf_promptTemplate (buildContext ?chunks) scenario_query\<rparr>],
                MaxTokens = 4096, Stop = [''<|eot_id|>'']\<rparr>] :: real call list"
  have e1: "GetEmbedding ?w1 (tei scenario_service) scenario_query =
              (([], Some (ErrWrap ''TEI request failed'' timeout_error)), ?t1)"
    by (simp add: GetEmbedding_def Let_def scenario_def scenario_service_def)
  have e2: "GetEmbedding ?w2 (tei scenario_service) scenario_query =
              (([0.1, 0.2, 0.3], None), ?t1)"
    by (simp add: GetEmbedding_def Let_def scenario_def scenario_service_def)
  have e3: "GetEmbedding ?w3 (tei scenario_service) scenario_query =
              (([0.1, 0.2, 0.3], None), ?t1)"
    by (simp add: GetEmbedding_def Let_def scenario_def scenario_service_def)
  have s2: "SearchSimilar ?w2 (weaviate scenario_service) [0.1, 0.2, 0.3] =
              (([], Some (ErrNew ''invalid GraphQL response: missing Get field'')), ?t2)"
    by (simp add: SearchSimilar_def Let_def extractTextChunks_def scenario_def
          scenario_service_def)
  have s3: "SearchSimilar ?w3 (weaviate scenario_service) [0.1, 0.2, 0.3] =
              ((?chunks, None), ?t2)"
    by (simp add: SearchSimilar_def Let_def extractTextChunks_def scenario_def
          scenario_data_def scenario_service_def)
  have g3: "GenerateResponse ?w3 (vllm scenario_service)
              (Sprintf_promptTemplate (buildContext ?chunks) scenario_query) =
              (('''', Some (ErrNew ''no completion choices returned from vLLM'')), ?t3)"
    by (simp add: GenerateResponse_def scenario_service_def)
  note r1 = Query_failure_returns_empty_answer [of ?w1 scenario_service scenario_query,
              THEN conjunct2, THEN conjunct1, rule_format, OF e1]
  note r2 = Query_failure_returns_empty_answer [of ?w2 scenario_service scenario_query,
              THEN conjunct2, THEN conjunct2, THEN conjunct1, rule_format, OF conjI [OF e2 s2]]
  note r3 = Query_failure_returns_empty_answer [of ?w3 scenario_service scenario_query,
              THEN conjunct2, THEN conjunct2, THEN conjunct2, rule_format,
              OF conjI [OF e3 conjI [OF s3 g3]]]
  from r2 have n2: "snd (fst (Query ?w2 scenario_service scenario_query)) \<noteq> None"
    by simp
  note r0 = Query_failure_returns_empty_answer [of ?w2 scenario_service scenario_query,
              THEN conjunct1, rule_format, OF n2]
  from r0 r1 r2 r3 n2 show ?thesis by simp
qed

section \<open>The prompt builder\<close>

lemma occurrences_0_iff: "m \<noteq> [] \<Longrightarrow> (occurrences m s = 0) = (\<not> sublist m s)"
  by (induction s) (auto simp add: sublist_Cons_right)

lemma occurrences_skip:
  "c \<notin> set a \<Longrightarrow> occurrences (c # m) (a @ s) = occurrences (c # m) s"
  by (induction a) auto

lemma prefix_before_foreign:
  assumes "prefix m (u @ d # r)" and "d \<notin> set m"
  shows "prefix m u"
proof -
  from assms(1) consider "prefix m u" | us where "m = u @ us" "prefix us (d # r)"
    by (auto simp add: prefix_append)
  then show ?thesis
  proof cases
    case 1 then show ?thesis .
  next
    case 2
    with assms(2) show ?thesis by (cases us) auto
  qed
qed

lemma occurrences_free_text:
  assumes "\<not> sublist m p" and "d \<notin> set m" and "m \<noteq> []"
  shows "occurrences m (p @ d # r) = occurrences m (d # r)"
  using assms(1)
proof (induction p)
  case Nil
  show ?case by simp
next
  case (Cons x p)
  from Cons.prems have np: "\<not> prefix m (x # p)" and ns: "\<not> sublist m p"
    by (simp_all add: sublist_Cons_right)
  have "\<not> prefix m ((x # p) @ d # r)"
    using prefix_before_foreign [of m "x # p" d r] assms(2) np by blast
  with Cons.IH [OF ns] show ?case by simp
qed

lemma digits_chars: "set (digits n) \<subseteq> set ''0123456789''"
proof (induction n rule: digits.induct)
  case (1 n)
  have "''0123456789'' ! k \<in> set ''0123456789''" if "k < 10" for k
    using that nth_mem [of k "''0123456789''"] by simp
  then have a: "''0123456789'' ! (n mod 10) \<in> set ''0123456789''"
    and b: "n < 10 \<Longrightarrow> ''0123456789'' ! n \<in> set ''0123456789''"
    by simp_all
  show ?case
  proof (cases "n < 10")
    case True
    with b show ?thesis by (subst digits.simps) simp
  next
    case False
    with 1 a show ?thesis by (subst digits.simps) simp
  qed
qed

lemma Itoa_no_dash: "0 \<le> i \<Longrightarrow> CHR ''-'' \<notin> set (Itoa i)"
  using digits_chars [of "nat i"] by (auto simp add: Itoa_def)

lemma buildContext_loop_builder:
  "buildContext_loop builder i chunks = builder @ buildContext_loop [] i chunks"
proof (induction chunks arbitrary: builder i)
  case Nil show ?case by simp
next
  case (Cons c cs)
  show ?case
    using Cons [of "builder @ Sprintf_chunk (i + 1) c" "i + 1"]
          Cons [of "Sprintf_chunk (i + 1) c" "i + 1"] by simp
qed

lemma buildContext_loop_blocks:
  "buildContext_loop [] i chunks =
     concat (map (\<lambda>k. Sprintf_chunk (i + int k + 1) (chunks ! k)) [0..<length chunks])"
proof (induction chunks arbitrary: i)
  case Nil show ?case by simp
next
  case (Cons c cs)
  have "buildContext_loop [] i (c # cs) = Sprintf_chunk (i + 1) c @ buildContext_loop [] (i + 1) cs"
    using buildContext_loop_builder [of "Sprintf_chunk (i + 1) c" "i + 1" cs] by simp
  also have "\<dots> = Sprintf_chunk (i + 1) c @
      concat (map (\<lambda>k. Sprintf_chunk (i + 1 + int k + 1) (cs ! k)) [0..<length cs])"
    by (simp add: Cons)
  also have "\<dots> = concat (map (\<lambda>k. Sprintf_chunk (i + int k + 1) ((c # cs) ! k)) [0..<length (c # cs)])"
    by (simp add: map_upt_Suc add.commute add.left_commute del: upt_Suc)
  finally show ?case .
qed

lemma occurrences_chunk:
  assumes "\<not> sublist chunk_marker p" and "0 \<le> n"
  shows "occurrences chunk_marker (Sprintf_chunk n p @ r) = 1 + occurrences chunk_marker r"
proof -
  have nl: "CHR 0x0A \<notin> set chunk_marker" and ne: "chunk_marker \<noteq> []"
    by (simp_all add: chunk_marker_def)
  have tail: "occurrences chunk_marker (p @ CHR 0x0A # CHR 0x0A # r) = occurrences chunk_marker r"
    using occurrences_free_text [OF assms(1) nl ne, of "CHR 0x0A # r"]
    by (simp add: chunk_marker_def)
  have num: "occurrences chunk_marker (Itoa n @ s) = occurrences chunk_marker s" for s
    using occurrences_skip [OF Itoa_no_dash [OF assms(2)]] by (simp add: chunk_marker_def)
  have "occurrences chunk_marker (Sprintf_chunk n p @ r) =
          1 + occurrences chunk_marker (Itoa n @ '' ---\<newline>'' @ p @ ''\<newline>\<newline>'' @ r)"
    by (simp add: Sprintf_chunk_def chunk_marker_def)
  also have "\<dots> = 1 + occurrences chunk_marker ('' ---\<newline>'' @ p @ ''\<newline>\<newline>'' @ r)"
    by (simp only: num)
  also have "\<dots> = 1 + occurrences chunk_marker (p @ CHR 0x0A # CHR 0x0A # r)"
    by (simp add: chunk_marker_def)
  finally show ?thesis by (simp add: tail)
qed

lemma occurrences_buildContext_loop:
  assumes "\<forall>p \<in> set chunks. \<not> sublist chunk_marker p" and "0 \<le> i"
  shows "occurrences chunk_marker (buildContext_loop [] i chunks @ r) =
           length chunks + occurrences chunk_marker r"
  using assms
proof (induction chunks arbitrary: i)
  case Nil show ?case by simp
next
  case (Cons c cs)
  have "buildContext_loop [] i (c # cs) = Sprintf_chunk (i + 1) c @ buildContext_loop [] (i + 1) cs"
    using buildContext_loop_builder [of "Sprintf_chunk (i + 1) c" "i + 1" cs] by simp
  moreover from Cons.prems have "\<not> sublist chunk_marker c" "0 \<le> i + 1"
    "\<forall>p \<in> set cs. \<not> sublist chunk_marker p" by simp_all
  ultimately show ?case
    using occurrences_chunk [of c "i + 1" "buildContext_loop [] (i + 1) cs @ r"]
      Cons.IH [of "i + 1"] by simp
qed

lemma occurrences_head:
  "occurrences chunk_marker (promptTemplate_head @ r) = occurrences chunk_marker r"
proof -
  have "CHR ''-'' \<notin> set promptTemplate_head"
    by (simp add: promptTemplate_head_def)
  from occurrences_skip [OF this] show ?thesis
    by (simp add: chunk_marker_def)
qed

lemma occurrences_after_context:
  assumes "\<not> sublist chunk_marker query"
  shows "occurrences chunk_marker (promptTemplate_mid @ query @ promptTemplate_tail) = 0"
proof -
  have nl: "CHR 0x0A \<notin> set chunk_marker" and ne: "chunk_marker \<noteq> []"
    by (simp_all add: chunk_marker_def)
  have m: "CHR ''-'' \<notin> set promptTemplate_mid" and t: "CHR ''-'' \<notin> set promptTemplate_tail"
    by (simp_all add: promptTemplate_mid_def promptTemplate_tail_def)
  obtain rest where tl: "promptTemplate_tail = CHR 0x0A # rest"
    by (simp add: promptTemplate_tail_def)
  have "occurrences chunk_marker (promptTemplate_mid @ query @ promptTemplate_tail) =
          occurrences chunk_marker (query @ promptTemplate_tail)"
    using occurrences_skip [OF m] by (simp add: chunk_marker_def)
  also have "\<dots> = occurrences chunk_marker promptTemplate_tail"
    using occurrences_free_text [OF assms nl ne, of rest] by (simp add: tl)
  also have "\<dots> = occurrences chunk_marker []"
    using occurrences_skip [OF t, of _ "[]"] by (simp add: chunk_marker_def)
  finally show ?thesis by (simp add: chunk_marker_def)
qed

lemma occurrences_prompt:
  assumes "\<forall>p \<in> set chunks. \<not> sublist chunk_marker p"
      and "\<not> sublist chunk_marker query"
  shows "occurrences chunk_marker (Sprintf_promptTemplate (buildContext chunks) query) =
           length chunks"
proof (cases "chunks = []")
  case True
  have "CHR ''-'' \<notin> set ''No relevant context found.''"
    by simp
  from occurrences_skip [OF this]
  have "occurrences chunk_marker (''No relevant context found.'' @ r) =
          occurrences chunk_marker r" for r
    by (simp add: chunk_marker_def)
  from this [of "promptTemplate_mid @ query @ promptTemplate_tail"] True show ?thesis
    using occurrences_head [of "''No relevant context found.'' @ promptTemplate_mid @ query @
                                  promptTemplate_tail"]
      occurrences_after_context [OF assms(2)]
    by (simp add: Sprintf_promptTemplate_def buildContext_def)
next
  case False
  then show ?thesis
    using occurrences_head [of "buildContext_loop [] 0 chunks @ promptTemplate_mid @ query @
                                  promptTemplate_tail"]
      occurrences_after_context [OF assms(2)]
      occurrences_buildContext_loop [OF assms(1), of 0
        "promptTemplate_mid @ query @ promptTemplate_tail"]
    by (simp add: Sprintf_promptTemplate_def buildContext_def)
qed

lemma GenerateResponse_calls:
  "snd (GenerateResponse w s prompt) =
     [Call_vLLM \<lparr>Model = modelName s, Messages = [\<lparr>Role = ''user'', Content = prompt\<rparr>],
                 MaxTokens = maxTokens s, Stop = [''<|eot_id|>'']\<rparr>]"
  by (simp add: GenerateResponse_def Let_def split: sum.splits list.splits)

lemma Query_calls_after_search:
  assumes "GetEmbedding w (tei s) query = ((embedding, None), t1)"
      and "SearchSimilar w (weaviate s) embedding = ((chunks, None), t2)"
  shows "snd (Query w s query) =
           Call_Query query # t1 @ t2 @
             [Call_buildContext chunks,
              Call_vLLM \<lparr>Model = modelName (vllm s),
                         Messages = [\<lparr>Role = ''user'',
                           Content = Sprintf_promptTemplate (buildContext chunks) query\<rparr>],
                         MaxTokens = maxTokens (vllm s), Stop = [''<|eot_id|>'']\<rparr>]"
proof -
  obtain answer err t3 where
    g: "GenerateResponse w (vllm s) (Sprintf_promptTemplate (buildContext chunks) query) =
          ((answer, err), t3)"
    by (metis surj_pair)
  from g GenerateResponse_calls [of w "vllm s" "Sprintf_promptTemplate (buildContext chunks) query"]
  have t3: "t3 = [Call_vLLM \<lparr>Model = modelName (vllm s),
                         Messages = [\<lparr>Role = ''user'',
                           Content = Sprintf_promptTemplate (buildContext chunks) query\<rparr>],
                         MaxTokens = maxTokens (vllm s), Stop = [''<|eot_id|>'']\<rparr>]"
    by simp
  show ?thesis
  proof (cases err)
    case None
    with g have "Query w s query =
        ((answer, None), Call_Query query # t1 @ t2 @ [Call_buildContext chunks] @ t3)"
      using Query_succeeded [OF assms] by simp
    then show ?thesis by (simp add: t3)
  next
    case (Some e)
    with g have "Query w s query =
        (('''', Some (ErrWrap ''failed to generate answer'' e)),
         Call_Query query # t1 @ t2 @ [Call_buildContext chunks] @ t3)"
      using Query_generation_failed [OF assms] by simp
    then show ?thesis by (simp add: t3)
  qed
qed

text \<open>
  C2, as the code has it. For a sequence of passages that is not empty, the context is the concatenation, in
  the order of the passages, of the blocks "--- Context Chunk N ---", line feed, the text
  of the passage, two line feeds, N being 1 for the first passage and one more for each
  next one. The prompt is the head of the template, this context, the middle part of the
  template, the query and the tail of the template, and it is the content of the single
  user message the generator is called with. For two passages the context is the block
  numbered 1 with the first passage followed by the block numbered 2 with the second one.
  When neither a passage nor the query contains the text "--- Context Chunk", the prompt
  contains it exactly once per passage.
\<close>

theorem buildContext_numbered_blocks:
  assumes "chunks \<noteq> []"
  shows "buildContext chunks =
           concat (map (\<lambda>k. ''--- Context Chunk '' @ Itoa (int k + 1) @ '' ---\<newline>'' @
                              chunks ! k @ ''\<newline>\<newline>'') [0..<length chunks]) \<and>
         Sprintf_promptTemplate (buildContext chunks) query =
           promptTemplate_head @ buildContext chunks @ promptTemplate_mid @ query @
           promptTemplate_tail \<and>
         (\<forall>p1 p2. chunks = [p1, p2] \<longrightarrow>
            buildContext chunks =
              ''--- Context Chunk 1 ---\<newline>'' @ p1 @ ''\<newline>\<newline>'' @
              ''--- Context Chunk 2 ---\<newline>'' @ p2 @ ''\<newline>\<newline>'') \<and>
         ((\<forall>p \<in> set chunks. \<not> sublist chunk_marker p) \<and> \<not> sublist chunk_marker query \<longrightarrow>
            occurrences chunk_marker (Sprintf_promptTemplate (buildContext chunks) query) =
              length chunks) \<and>
         (\<forall>(w :: ('a, 'b) world) s embedding t1 t2.
            GetEmbedding w (tei s) query = ((embedding, None), t1) \<and>
            SearchSimilar w (weaviate s) embedding = ((chunks, None), t2) \<longrightarrow>
            snd (Query w s query) =
              Call_Query query # t1 @ t2 @
                [Call_buildContext chunks,
                 Call_vLLM \<lparr>Model = modelName (vllm s),
                            Messages = [\<lparr>Role = ''user'',
                              Content = Sprintf_promptTemplate (buildContext chunks) query\<rparr>],
                            MaxTokens = maxTokens (vllm s), Stop = [''<|eot_id|>'']\<rparr>])"
proof (intro conjI allI impI)
  show "buildContext chunks =
          concat (map (\<lambda>k. ''--- Context Chunk '' @ Itoa (int k + 1) @ '' ---\<newline>'' @
                             chunks ! k @ ''\<newline>\<newline>'') [0..<length chunks])"
    using assms buildContext_loop_blocks [of 0 chunks]
    by (simp add: buildContext_def Sprintf_chunk_def)
next
  show "Sprintf_promptTemplate (buildContext chunks) query =
          promptTemplate_head @ buildContext chunks @ promptTemplate_mid @ query @
          promptTemplate_tail"
    by (simp add: Sprintf_promptTemplate_def)
next
  fix p1 p2
  assume "chunks = [p1, p2]"
  then show "buildContext chunks =
               ''--- Context Chunk 1 ---\<newline>'' @ p1 @ ''\<newline>\<newline>'' @
               ''--- Context Chunk 2 ---\<newline>'' @ p2 @ ''\<newline>\<newline>''"
    by (simp add: buildContext_def Sprintf_chunk_def Itoa_def digits.simps)
next
  assume "(\<forall>p \<in> set chunks. \<not> sublist chunk_marker p) \<and> \<not> sublist chunk_marker query"
  then show "occurrences chunk_marker (Sprintf_promptTemplate (buildContext chunks) query) =
               length chunks"
    using occurrences_prompt [of chunks query] by blast
next
  fix w :: "('a, 'b) world" and s :: RAGService and embedding t1 t2
  assume "GetEmbedding w (tei s) query = ((embedding, None), t1) \<and>
          SearchSimilar w (weaviate s) embedding = ((chunks, None), t2)"
  then show "snd (Query w s query) =
               Call_Query query # t1 @ t2 @
                 [Call_buildContext chunks,
                  Call_vLLM \<lparr>Model = modelName (vllm s),
                             Messages = [\<lparr>Role = ''user'',
                               Content = Sprintf_promptTemplate (buildContext chunks) query\<rparr>],
                             MaxTokens = maxTokens (vllm s), Stop = [''<|eot_id|>'']\<rparr>]"
    using Query_calls_after_search [of w s query embedding t1 chunks t2] by blast
qed

theorem buildContext_numbered_blocks_witness:
  "[''Movie A is sci-fi.'', ''Movie B is sci-fi.''] \<noteq> [] \<and>
   buildContext [''Movie A is sci-fi.'', ''Movie B is sci-fi.''] =
     ''--- Context Chunk 1 ---\<newline>Movie A is sci-fi.\<newline>\<newline>--- Context Chunk 2 ---\<newline>Movie B is sci-fi.\<newline>\<newline>'' \<and>
   occurrences chunk_marker
     (Sprintf_promptTemplate (buildContext [''Movie A is sci-fi.'', ''Movie B is sci-fi.''])
        scenario_query) = 2 \<and>
   snd (Query scenario scenario_service scenario_query) =
     [Call_Query scenario_query,
      Call_TEI \<lparr>Method = ''POST'', URL = ''http://localhost:8082/embed'',
                ContentType = ''application/json'', Body = scenario_query\<rparr>,
      Call_Weaviate \<lparr>ClassName = ''LlamaIndex'', Fields = [''text''],
                     NearVector = [0.1, 0.2, 0.3], Limit = 3\<rparr>,
      Call_buildContext [''Movie A is sci-fi.'', ''Movie B is sci-fi.''],
      Call_vLLM \<lparr>Model = ''microsoft/Phi-3-mini-128k-instruct'',
                 Messages = [\<lparr>Role = ''user'',
                   Content = Sprintf_promptTemplate
                     (buildContext [''Movie A is sci-fi.'', ''Movie B is sci-fi.''])
                     scenario_query\<rparr>],
                 MaxTokens = 4096, Stop = [''<|eot_id|>'']\<rparr>]"
proof -
  let ?chunks = "[''Movie A is sci-fi.'', ''Movie B is sci-fi.'']"
  let ?t1 = "[Call_TEI \<lparr>Method = ''POST'', URL = ''http://localhost:8082/embed'',
                ContentType = ''application/json'', Body = scenario_query\<rparr>] :: real call list"
  let ?t2 = "[Call_Weaviate \<lparr>ClassName = ''LlamaIndex'', Fields = [''text''],
                NearVector = [0.1, 0.2, 0.3 :: real], Limit = 3\<rparr>]"
  have ne: "?chunks \<noteq> []"
    by simp
  have free: "(\<forall>p \<in> set ?chunks. \<not> sublist chunk_marker p) \<and>
              \<not> sublist chunk_marker scenario_query"
    by (simp add: chunk_marker_def scenario_query_def sublist_Cons_right)
  have e: "GetEmbedding scenario (tei scenario_service) scenario_query =
             (([0.1, 0.2, 0.3], None), ?t1)"
    by (simp add: GetEmbedding_def Let_def scenario_def scenario_service_def)
  have s: "SearchSimilar scenario (weaviate scenario_service) [0.1, 0.2, 0.3] =
             ((?chunks, None), ?t2)"
    by (simp add: SearchSimilar_def Let_def extractTextChunks_def scenario_def
          scenario_data_def scenario_service_def)
  note all = buildContext_numbered_blocks [OF ne, of scenario_query]
  note two = all [THEN conjunct2, THEN conjunct2, THEN conjunct1, rule_format, OF refl]
  note count = all [THEN conjunct2, THEN conjunct2, THEN conjunct2, THEN conjunct1,
                 rule_format, OF free]
  note calls = all [THEN conjunct2, THEN conjunct2, THEN conjunct2, THEN conjunct2,
                 rule_format, OF conjI [OF e s]]
  from two count calls show ?thesis
    by (simp add: scenario_service_def)
qed

text \<open>
  C2 as stated fails for two passages when the query or a passage contains the text of
  a block itself: with the marker in the query the prompt contains it three times, and
  with a passage that ends in a line "--- Context Chunk 2 ---" the context contains that
  numbered header twice.
\<close>

theorem prompt_of_two_passages_with_third_marker:
  "occurrences chunk_marker
     (Sprintf_promptTemplate (buildContext [''Movie A is sci-fi.'', ''Movie B is sci-fi.''])
        ''Explain --- Context Chunk 1 ---'') = 3 \<and>
   occurrences ''--- Context Chunk 2 ---''
     (buildContext [''Movie A.\<newline>\<newline>--- Context Chunk 2 ---\<newline>forged'',
                    ''Movie B is sci-fi.'']) = 2"
  by (simp add: Sprintf_promptTemplate_def promptTemplate_head_def promptTemplate_mid_def
        promptTemplate_tail_def buildContext_def Sprintf_chunk_def Itoa_def digits.simps
        chunk_marker_def)

text \<open>
  C4, as the code has it. With no passage the context is the sentinel "No relevant
  context found.", so that the prompt is the head of the template, the sentinel, the
  middle part of the template, the query and the tail of the template; the context
  contains no "--- Context Chunk", and the prompt contains none either when the query
  contains none.
\<close>

theorem buildContext_empty_sentinel:
  "buildContext [] = ''No relevant context found.'' \<and>
   Sprintf_promptTemplate (buildContext []) query =
     promptTemplate_head @ ''No relevant context found.'' @ promptTemplate_mid @ query @
     promptTemplate_tail \<and>
   sublist ''No relevant context found.'' (Sprintf_promptTemplate (buildContext []) query) \<and>
   \<not> sublist chunk_marker (buildContext []) \<and>
   (\<not> sublist chunk_marker query \<longrightarrow>
      \<not> sublist chunk_marker (Sprintf_promptTemplate (buildContext []) query))"
proof (intro conjI impI)
  show b: "buildContext [] = ''No relevant context found.''"
    by (simp add: buildContext_def)
  show p: "Sprintf_promptTemplate (buildContext []) query =
          promptTemplate_head @ ''No relevant context found.'' @ promptTemplate_mid @ query @
          promptTemplate_tail"
    by (simp add: Sprintf_promptTemplate_def buildContext_def)
  show "sublist ''No relevant context found.'' (Sprintf_promptTemplate (buildContext []) query)"
    unfolding p by (rule sublist_appendI)
  show "\<not> sublist chunk_marker (buildContext [])"
    by (simp add: b chunk_marker_def sublist_Cons_right)
next
  assume "\<not> sublist chunk_marker query"
  then have "occurrences chunk_marker (Sprintf_promptTemplate (buildContext []) query) = 0"
    using occurrences_prompt [of "[]" query] by simp
  moreover have "chunk_marker \<noteq> []"
    by (simp add: chunk_marker_def)
  ultimately show "\<not> sublist chunk_marker (Sprintf_promptTemplate (buildContext []) query)"
    by (simp add: occurrences_0_iff)
qed

theorem buildContext_empty_sentinel_witness:
  "\<not> sublist chunk_marker scenario_query \<and>
   \<not> sublist chunk_marker (Sprintf_promptTemplate (buildContext []) scenario_query) \<and>
   sublist ''No relevant context found.''
     (Sprintf_promptTemplate (buildContext []) scenario_query)"
proof -
  have free: "\<not> sublist chunk_marker scenario_query"
    by (simp add: chunk_marker_def scenario_query_def sublist_Cons_right)
  note all = buildContext_empty_sentinel [of scenario_query]
  from free all show ?thesis
    by blast
qed

text \<open>
  C4 as stated fails for a query that contains the marker itself: the query is copied
  into the prompt as it is.
\<close>

theorem prompt_of_marker_query_contains_marker:
  "sublist ''--- Context Chunk''
     (Sprintf_promptTemplate (buildContext []) ''Explain --- Context Chunk 1 ---'')"
proof -
  have "sublist ''--- Context Chunk'' (''Explain '' @ ''--- Context Chunk'' @ '' 1 ---'')"
    by (rule sublist_appendI)
  then have q: "sublist ''--- Context Chunk'' ''Explain --- Context Chunk 1 ---''"
    by simp
  have "sublist ''Explain --- Context Chunk 1 ---''
          ((promptTemplate_head @ buildContext [] @ promptTemplate_mid) @
           ''Explain --- Context Chunk 1 ---'' @ promptTemplate_tail)"
    by (rule sublist_appendI)
  then have "sublist ''Explain --- Context Chunk 1 ---''
               (Sprintf_promptTemplate (buildContext []) ''Explain --- Context Chunk 1 ---'')"
    by (simp add: Sprintf_promptTemplate_def)
  with q show ?thesis
    by (rule sublist_order.order_trans)
qed

section \<open>The query handler\<close>

lemma Query_calls_first: "\<exists>rest. snd (Query w s query) = Call_Query query # rest"
  by (simp add: Query_def Let_def split: prod.splits option.splits)

text \<open>
  C9, as the code has it. A request whose query is the empty string is rejected with the
  status 400 and the message "Query cannot be empty", and no call is made: the
  orchestrator is not invoked. A request whose body does not parse is rejected with the
  status 400 too. The query is not trimmed: every query that is not the empty string is
  passed to the orchestrator as it is.
\<close>

theorem Handle_rejects_empty_query:
  "(req_Query req = '''' \<longrightarrow>
      Handle w h (Inr req) = (Fiber_Error 400 ''Query cannot be empty'', [])) \<and>
   Handle w h (Inl err) = (Fiber_Error 400 ''Invalid request body'', []) \<and>
   (req_Query req \<noteq> '''' \<longrightarrow>
      snd (Handle w h (Inr req)) = snd (Query w (ragService h) (req_Query req)) \<and>
      (\<exists>rest. snd (Handle w h (Inr req)) = Call_Query (req_Query req) # rest))"
proof (intro conjI impI)
  assume "req_Query req = ''''"
  then show "Handle w h (Inr req) = (Fiber_Error 400 ''Query cannot be empty'', [])"
    by (simp add: Handle_def)
next
  show "Handle w h (Inl err) = (Fiber_Error 400 ''Invalid request body'', [])"
    by (simp add: Handle_def)
next
  assume "req_Query req \<noteq> ''''"
  then show same: "snd (Handle w h (Inr req)) = snd (Query w (ragService h) (req_Query req))"
    by (simp add: Handle_def split: prod.splits option.splits)
  show "\<exists>rest. snd (Handle w h (Inr req)) = Call_Query (req_Query req) # rest"
    unfolding same by (rule Query_calls_first)
qed

theorem Handle_rejects_empty_query_witness:
  "req_Query \<lparr>req_Query = ''''\<rparr> = '''' \<and>
   Handle scenario \<lparr>ragService = scenario_service\<rparr> (Inr \<lparr>req_Query = ''''\<rparr>) =
     (Fiber_Error 400 ''Query cannot be empty'', []) \<and>
   req_Query \<lparr>req_Query = scenario_query\<rparr> \<noteq> '''' \<and>
   snd (Handle scenario \<lparr>ragService = scenario_service\<rparr> (Inr \<lparr>req_Query = scenario_query\<rparr>)) =
     snd (Query scenario scenario_service scenario_query)"
proof -
  have a: "req_Query \<lparr>req_Query = ''''\<rparr> = ''''"
    by simp
  have b: "req_Query \<lparr>req_Query = scenario_query\<rparr> \<noteq> ''''"
    by (simp add: scenario_query_def)
  note r1 = Handle_rejects_empty_query [of "\<lparr>req_Query = ''''\<rparr>" scenario
              "\<lparr>ragService = scenario_service\<rparr>", THEN conjunct1, rule_format, OF a]
  note r2 = Handle_rejects_empty_query [of "\<lparr>req_Query = scenario_query\<rparr>" scenario
              "\<lparr>ragService = scenario_service\<rparr>", THEN conjunct2, THEN conjunct2,
              rule_format, OF b, THEN conjunct1]
  from a b r1 r2 show ?thesis
    by simp
qed

text \<open>
  C9 as stated fails: a query of one space has length 0 after trimming, and the handler
  passes it to the orchestrator and answers with the pipeline's result.
\<close>

theorem Handle_blank_query_reaches_pipeline:
  "length (TrimSpace '' '') < 1 \<and>
   fst (Handle scenario \<lparr>ragService = scenario_service\<rparr> (Inr \<lparr>req_Query = '' ''\<rparr>)) =
     JSON \<lparr>Response = ''Both movies are science fiction.''\<rparr> \<and>
   Call_Query '' '' \<in>
     set (snd (Handle scenario \<lparr>ragService = scenario_service\<rparr> (Inr \<lparr>req_Query = '' ''\<rparr>)))"
  by (simp add: TrimSpace_def is_space_def Handle_def Query_def GetEmbedding_def
        SearchSimilar_def extractTextChunks_def GenerateResponse_def Let_def scenario_def
        scenario_data_def scenario_service_def)

end
